theory Spec2Isabelle
  imports Main "HOL-Library.AList"
begin

section \<open>JavaScript values\<close>

text \<open>
  The data that flows through \<^verbatim>\<open>src/RouteConfig.js\<close>: request bodies, path parameters,
  controller results and method metadata are plain JavaScript values. An object is the
  list of its own enumerable properties in insertion order (keys are unique in
  JavaScript; a lookup takes the first binding).
\<close>

datatype jsval =
    JUndefined
  | JNull
  | JBool bool
  | JNum int
  | JStr string
  | JArr "jsval list"
  | JObj "(string \<times> jsval) list"

text \<open>JavaScript truthiness, as used by \<^verbatim>\<open>if (x)\<close>, \<^verbatim>\<open>!x\<close> and \<^verbatim>\<open>x && y\<close>.\<close>

fun truthy :: "jsval \<Rightarrow> bool" where
  "truthy JUndefined = False"
| "truthy JNull = False"
| "truthy (JBool b) = b"
| "truthy (JNum n) = (n \<noteq> 0)"
| "truthy (JStr s) = (s \<noteq> [])"
| "truthy (JArr xs) = True"
| "truthy (JObj kvs) = True"

text \<open>
  Reading a property \<^verbatim>\<open>v.k\<close> of a value that is neither \<^verbatim>\<open>undefined\<close> nor
  \<^verbatim>\<open>null\<close>: an absent property reads as \<^verbatim>\<open>undefined\<close>. (Reading a property of
  \<^verbatim>\<open>undefined\<close> or \<^verbatim>\<open>null\<close> raises a TypeError; the callers below test for that
  case before they call \<open>get_prop\<close>.)
\<close>

fun get_prop :: "jsval \<Rightarrow> string \<Rightarrow> jsval" where
  "get_prop (JObj kvs) k = (case map_of kvs k of None \<Rightarrow> JUndefined | Some v \<Rightarrow> v)"
| "get_prop (JArr xs) k = (if k = ''length'' then JNum (int (length xs)) else JUndefined)"
| "get_prop (JStr s) k = (if k = ''length'' then JNum (int (length s)) else JUndefined)"
| "get_prop v k = JUndefined"

definition nullish :: "jsval \<Rightarrow> bool" where
  "nullish v = (v = JUndefined \<or> v = JNull)"

section \<open>Errors\<close>

text \<open>
  A thrown or rejected value: its message and the numeric status it carries, if any.
\<close>

datatype js_error = Error (err_message: string) (err_status: "int option")

definition type_error :: "string \<Rightarrow> js_error" where
  "type_error msg = Error msg None"

text \<open>The \<^verbatim>\<open>nullthrows\<close> package: the identity on every value but \<^verbatim>\<open>null\<close> and
  \<^verbatim>\<open>undefined\<close>, where it throws.\<close>

definition nullthrows :: "jsval \<Rightarrow> js_error + jsval" where
  "nullthrows x = (if x \<noteq> JNull \<and> x \<noteq> JUndefined then Inr x
                   else Inl (Error ''Got unexpected null or undefined'' None))"

text \<open>
  Modelled from the spec: \<^verbatim>\<open>lib/HttpError.js\<close> is imported by the route configuration
  but is not among the sources. Section 4.4 of the specification describes it as a map
  from any thrown or rejected value to a status and a message: a status the error
  already carries is preserved, any other error gets an internal-error status (500),
  and the message is the error's message.
\<close>

record http_error =
  status :: int
  message :: string

definition HttpError :: "js_error \<Rightarrow> http_error" where
  "HttpError e =
     \<lparr> status = (case err_status e of Some s \<Rightarrow> s | None \<Rightarrow> 500),
       message = err_message e \<rparr>"

section \<open>Named parameters of a route pattern\<close>

text \<open>The class \<^verbatim>\<open>\w\<close> of a JavaScript regular expression: \<^verbatim>\<open>[A-Za-z0-9_]\<close>.\<close>

definition word_char :: "char \<Rightarrow> bool" where
  "word_char c =
     (let n = (of_char c :: nat)
      in (48 \<le> n \<and> n \<le> 57) \<or> (65 \<le> n \<and> n \<le> 90) \<or> n = 95 \<or> (97 \<le> n \<and> n \<le> 122))"

text \<open>
  \<^verbatim>\<open>route.match(/:[\w]*/g) || []\<close>: every match of a colon followed by the longest run
  of word characters, from left to right, the search resuming after each match. With
  no match the method returns \<^verbatim>\<open>null\<close> and the source substitutes the empty array.
\<close>

function match_all :: "string \<Rightarrow> string list" where
  "match_all [] = []"
| "match_all (c # cs) =
     (if c = CHR '':''
      then (c # takeWhile word_char cs) # match_all (dropWhile word_char cs)
      else match_all cs)"
  by pat_completeness auto
termination
  by (relation "measure length") (auto simp: length_dropWhile_le less_Suc_eq_le)

text \<open>\<^verbatim>\<open>argumentName.replace(':', '')\<close> deletes the first colon of the match.\<close>

definition strip_colon :: "string \<Rightarrow> string" where
  "strip_colon s = remove1 (CHR '':'') s"

definition argumentNames :: "string \<Rightarrow> string list" where
  "argumentNames route = map strip_colon (match_all route)"

section \<open>Requests, responses and middleware\<close>

text \<open>
  The parts of the framework's request that the route configuration reads or writes:
  the method and path the router matches on, the path-parameter map, the parsed body
  (\<open>None\<close> when it is \<^verbatim>\<open>undefined\<close>), the \<^verbatim>\<open>user\<close> field, and whether
  \<^verbatim>\<open>socket.setNoDelay()\<close> has been called.
\<close>

record request =
  http_method :: string
  path :: string
  params :: "(string \<times> string) list"
  body :: "(string \<times> jsval) list option"
  user :: jsval
  noDelay :: bool

text \<open>
  The response sink is the list of calls made on it, oldest first, with
  \<^verbatim>\<open>response.locals.oauth\<close> beside it. What the framework writes to the wire for
  each call is its own business; \<open>sent_status\<close> and \<open>sent_body\<close> below read the
  calls by the framework's documented contract.
\<close>

datatype call =
    WriteHead int "(string \<times> string) list"
  | Status jsval
  | Json jsval
  | SendStatus int

record response =
  locals_oauth :: jsval
  calls :: "call list"

record st =
  req :: request
  res :: response

definition respond :: "call list \<Rightarrow> st \<Rightarrow> st" where
  "respond cs s = s\<lparr>res := (res s)\<lparr>calls := calls (res s) @ cs\<rparr>\<rparr>"

text \<open>
  Whether the head of the response has gone out: \<^verbatim>\<open>writeHead\<close>, \<^verbatim>\<open>json\<close> and
  \<^verbatim>\<open>sendStatus\<close> send it, \<^verbatim>\<open>status\<close> only sets the code. Once it is out,
  \<^verbatim>\<open>json\<close> throws when it sets its headers.
\<close>

fun sends_head :: "call \<Rightarrow> bool" where
  "sends_head (WriteHead n hs) = True"
| "sends_head (Json v) = True"
| "sends_head (SendStatus n) = True"
| "sends_head (Status v) = False"

definition headers_sent :: "call list \<Rightarrow> bool" where
  "headers_sent cs = list_ex sends_head cs"

definition headers_error :: js_error where
  "headers_error = Error ''Cannot set headers after they are sent to the client'' None"

text \<open>
  \<^verbatim>\<open>response.status(sv).json(d)\<close>: the status is set, and the body is sent unless the
  head is out already, in which case \<^verbatim>\<open>json\<close> throws and only the status has been
  set.
\<close>

definition status_json :: "jsval \<Rightarrow> jsval \<Rightarrow> st \<Rightarrow> (js_error \<times> st) + st" where
  "status_json sv d s =
     (let s1 = respond [Status sv] s
      in if headers_sent (calls (res s1)) then Inl (headers_error, s1)
         else Inr (respond [Json d] s1))"

text \<open>
  A middleware hands the (possibly updated) request and response to the next stage
  with \<^verbatim>\<open>next()\<close>, or it ends the chain there without calling it, or it passes an
  error with \<^verbatim>\<open>next(error)\<close>, which skips the remaining handlers.
\<close>

datatype flow = Next st | Ended st | NextError jsval st

type_synonym middleware = "st \<Rightarrow> flow"

definition maybe :: "middleware \<Rightarrow> bool \<Rightarrow> middleware" where
  "maybe middleware condition = (\<lambda>s. if condition then middleware s else Next s)"

definition injectUserMiddleware :: middleware where
  "injectUserMiddleware = (\<lambda>s.
     let oauthInfo = locals_oauth (res s)
     in if truthy oauthInfo
        then let token = get_prop oauthInfo ''token''
             in Next (s\<lparr>req := (req s)\<lparr>user :=
                      (if truthy token then get_prop token ''user'' else token)\<rparr>\<rparr>)
        else Next s)"

definition serverSentEventsMiddleware :: middleware where
  "serverSentEventsMiddleware = (\<lambda>s.
     Next (respond
       [WriteHead 200 [(''Cache-Control'', ''no-cache''),
                       (''Connection'', ''keep-alive''),
                       (''Content-Type'', ''text/event-stream'')]]
       (s\<lparr>req := (req s)\<lparr>noDelay := True\<rparr>\<rparr>)))"

text \<open>
  The capabilities the route configuration is handed or constructs from imported
  packages: the OAuth server's two middleware and multer's two upload parsers.
\<close>

record capabilities =
  oauth_authenticate :: middleware
  oauth_token :: middleware
  multer_fields :: "jsval \<Rightarrow> middleware"
  multer_any :: middleware

record settings =
  ACCESS_TOKEN_LIFETIME :: nat
  API_TIMEOUT :: int
  LOGIN_ROUTE :: string

text \<open>
  \<^verbatim>\<open>filesMiddleware\<close>: the default \<^verbatim>\<open>[]\<close> replaces an argument that is
  \<^verbatim>\<open>undefined\<close> (not one that is \<^verbatim>\<open>null\<close>); \<^verbatim>\<open>nullthrows\<close> guards the read of
  \<^verbatim>\<open>length\<close>.
\<close>

definition filesMiddleware :: "capabilities \<Rightarrow> jsval \<Rightarrow> js_error + middleware" where
  "filesMiddleware caps allowedUploads0 =
     (let allowedUploads = (if allowedUploads0 = JUndefined then JArr [] else allowedUploads0)
      in case nullthrows allowedUploads of
           Inl e \<Rightarrow> Inl e
         | Inr a \<Rightarrow>
             Inr (if truthy (get_prop a ''length'')
                  then multer_fields caps allowedUploads
                  else multer_any caps))"

section \<open>Controller objects\<close>

text \<open>
  Controller instances are objects with identity: the dispatcher compares them with
  \<^verbatim>\<open>===\<close>, derives one from another with \<^verbatim>\<open>Object.create\<close> and assigns
  properties to them. The store is the list of all objects allocated so far; a
  reference is an index into it. An object has a prototype link and its own
  properties, all of them writable data properties (no setters, nothing frozen).
  Requests and responses stored in a property are stood for by their value at the
  time of the assignment.
\<close>

datatype slot = ReqObj request | ResObj response | Val jsval

record obj =
  proto :: "nat option"
  props :: "(string \<times> slot) list"

type_synonym heap = "obj list"

definition Object_create :: "heap \<Rightarrow> nat \<Rightarrow> nat \<times> heap" where
  "Object_create h p = (length h, h @ [\<lparr>proto = Some p, props = []\<rparr>])"

text \<open>
  \<^verbatim>\<open>o.k = v\<close>: creates or overwrites the own property \<open>k\<close> of \<open>o\<close>; the
  prototype is never written. (JavaScript has no dangling references; on an index
  outside the store the update leaves the store as it is.)
\<close>

definition set_field :: "heap \<Rightarrow> nat \<Rightarrow> string \<Rightarrow> slot \<Rightarrow> heap" where
  "set_field h a k v = h[a := (h ! a)\<lparr>props := AList.update k v (props (h ! a))\<rparr>]"

text \<open>
  \<^verbatim>\<open>o.k\<close>: the own property if there is one, else the prototype's, along the chain.
  A chain through a store of \<open>n\<close> objects has at most \<open>n\<close> links, which bounds the
  search; \<open>None\<close> is \<^verbatim>\<open>undefined\<close>.
\<close>

fun lookup_chain :: "nat \<Rightarrow> heap \<Rightarrow> nat \<Rightarrow> string \<Rightarrow> slot option" where
  "lookup_chain 0 h a k = None"
| "lookup_chain (Suc n) h a k =
     (if a < length h
      then (case map_of (props (h ! a)) k of
              Some v \<Rightarrow> Some v
            | None \<Rightarrow> (case proto (h ! a) of
                         None \<Rightarrow> None
                       | Some p \<Rightarrow> lookup_chain n h p k))
      else None)"

definition get_field :: "heap \<Rightarrow> nat \<Rightarrow> string \<Rightarrow> slot option" where
  "get_field h a k = lookup_chain (length h) h a k"

text \<open>
  The container capability, \<^verbatim>\<open>container.constitute(name)\<close>: it throws, or it returns
  a reference (the shared instance, or one it has just allocated) and the store it
  leaves behind.
\<close>

type_synonym container = "string \<Rightarrow> heap \<Rightarrow> js_error + (nat \<times> heap)"

section \<open>Deferred computations\<close>

text \<open>
  A promise is known by how it settles and when, counted in milliseconds from the
  moment the dispatcher races it: \<open>Some (0, x)\<close> is already settled, \<open>None\<close> never
  settles.
\<close>

datatype settlement = Fulfilled jsval | Rejected js_error

type_synonym promise = "(nat \<times> settlement) option"

text \<open>
  \<^verbatim>\<open>Promise.race\<close> settles as the entry that settles first. Among entries settled at
  the same time the one earlier in the array wins, its reaction having been
  registered first.
\<close>

fun earlier :: "promise \<Rightarrow> promise \<Rightarrow> promise" where
  "earlier None q = q"
| "earlier (Some (t, a)) None = Some (t, a)"
| "earlier (Some (t, a)) (Some (u, b)) = (if u < t then Some (u, b) else Some (t, a))"

definition Promise_race :: "promise list \<Rightarrow> promise" where
  "Promise_race ps = foldr earlier ps None"

text \<open>What a controller method does when called: it throws, or it returns a plain value
  or a promise.\<close>

datatype returned = Value jsval | Deferred promise

datatype call_result = Throws js_error | Returns returned

text \<open>A method is called with its receiver \<^verbatim>\<open>this\<close>, the store, and its arguments.\<close>

type_synonym js_method = "nat \<Rightarrow> heap \<Rightarrow> jsval list \<Rightarrow> call_result"

text \<open>The routing metadata attached to a controller method, and the method itself.\<close>

record method_meta =
  allowedUploads :: jsval
  anonymous :: jsval
  httpVerb :: jsval
  route :: string
  serverSentEvents :: jsval
  mappedFunction :: js_method

section \<open>The dispatcher\<close>

text \<open>How a request handler leaves a request: it has finished (whatever it wrote is in
  the response), an exception has left it (the promise of the asynchronous handler is
  rejected), it waits on a promise that never settles, a middleware has ended the chain
  without calling \<^verbatim>\<open>next()\<close>, a middleware has passed an error on, or every
  handler has passed the request on.\<close>

datatype outcome =
    Done st
  | Escaped js_error st
  | Waiting st
  | Halted st
  | Failed jsval st
  | Passed st

datatype attempt = Responds jsval jsval | Fails js_error | Never

text \<open>
  \<^verbatim>\<open>setTimeout(callback, delay)\<close>: the runtime takes a delay from 1 to
  \<^verbatim>\<open>2147483647\<close> milliseconds as it is and runs every other delay (zero, negative,
  larger) as one millisecond.
\<close>

definition timer_delay :: "int \<Rightarrow> nat" where
  "timer_delay ms = (if 1 \<le> ms \<and> ms \<le> 2147483647 then nat ms else 1)"

text \<open>
  \<^verbatim>\<open>await Promise.race([functionResult, !serverSentEvents ? timer : null])\<close> and the two
  \<^verbatim>\<open>nullthrows(result)\<close> reads. The timer rejects with \<^verbatim>\<open>new Error('timeout')\<close> when
  the delay \<^verbatim>\<open>settings.API_TIMEOUT\<close> has run; the entry \<^verbatim>\<open>null\<close> is, for the race,
  a promise already fulfilled with \<^verbatim>\<open>null\<close>.
\<close>

definition settle :: "int \<Rightarrow> jsval \<Rightarrow> promise \<Rightarrow> attempt" where
  "settle timeout sse functionResult =
     (case Promise_race
             [functionResult,
              if \<not> truthy sse
              then Some (timer_delay timeout, Rejected (Error ''timeout'' None))
              else Some (0, Fulfilled JNull)] of
        None \<Rightarrow> Never
      | Some (t, Rejected e) \<Rightarrow> Fails e
      | Some (t, Fulfilled result) \<Rightarrow>
          (case nullthrows result of
             Inl e \<Rightarrow> Fails e
           | Inr r \<Rightarrow> Responds (get_prop r ''status'') (get_prop r ''data'')))"

text \<open>
  The body of the \<^verbatim>\<open>try\<close> block, given what the method call did. Reading
  \<^verbatim>\<open>functionResult.then\<close> throws when the method returned \<^verbatim>\<open>undefined\<close> or
  \<^verbatim>\<open>null\<close>. A plain value with a truthy \<^verbatim>\<open>then\<close> property (not a function)
  enters the race as a promise already fulfilled with that value.
\<close>

definition try_block :: "settings \<Rightarrow> jsval \<Rightarrow> call_result \<Rightarrow> attempt" where
  "try_block settings sse r =
     (case r of
        Throws e \<Rightarrow> Fails e
      | Returns (Deferred p) \<Rightarrow> settle (API_TIMEOUT settings) sse p
      | Returns (Value v) \<Rightarrow>
          if nullish v then Fails (type_error ''Cannot read property 'then' of undefined'')
          else if truthy (get_prop v ''then'')
          then settle (API_TIMEOUT settings) sse (Some (0, Fulfilled v))
          else Responds (get_prop v ''status'') (get_prop v ''data''))"

text \<open>
  The \<^verbatim>\<open>catch\<close> block: the error is normalised and answered with its status and a
  JSON body. Nothing guards the block: when its own \<^verbatim>\<open>json\<close> throws, the exception
  leaves the handler.
\<close>

definition catch_block :: "js_error \<Rightarrow> st \<Rightarrow> outcome" where
  "catch_block e s =
     (let httpError = HttpError e
      in case status_json (JNum (status httpError))
                (JObj [(''error'', JStr (message httpError)), (''ok'', JBool False)]) s of
           Inr s' \<Rightarrow> Done s'
         | Inl (e', s') \<Rightarrow> Escaped e' s')"

text \<open>
  How the handler ends: the success line, which is inside the \<^verbatim>\<open>try\<close> block, so
  that an exception of its \<^verbatim>\<open>json\<close> goes to the \<^verbatim>\<open>catch\<close> block; the
  \<^verbatim>\<open>catch\<close> block for a failure before it; or an \<^verbatim>\<open>await\<close> that never resumes.
\<close>

definition write_result :: "attempt \<Rightarrow> st \<Rightarrow> outcome" where
  "write_result a s =
     (case a of
        Responds sv d \<Rightarrow>
          (case status_json sv d s of
             Inr s' \<Rightarrow> Done s'
           | Inl (e, s') \<Rightarrow> catch_block e s')
      | Fails e \<Rightarrow> catch_block e s
      | Never \<Rightarrow> Waiting s)"

text \<open>\<^verbatim>\<open>request.params[argument]\<close>\<close>

definition param :: "request \<Rightarrow> string \<Rightarrow> jsval" where
  "param r argument = (case map_of (params r) argument of None \<Rightarrow> JUndefined | Some v \<Rightarrow> JStr v)"

text \<open>
  Lines 109 to 122: resolve the controller, clone it when the container returned the
  instance resolved during the scan, and attach the request-scoped fields.
\<close>

definition instance_for ::
  "container \<Rightarrow> string \<Rightarrow> nat \<Rightarrow> heap \<Rightarrow> st \<Rightarrow> js_error + (nat \<times> heap)" where
  "instance_for container controllerName controller h s =
     (case container controllerName h of
        Inl e \<Rightarrow> Inl e
      | Inr (resolved, h1) \<Rightarrow>
          (let (controllerInstance, h2) =
                 (if resolved = controller then Object_create h1 resolved else (resolved, h1));
               h3 = set_field h2 controllerInstance ''request'' (ReqObj (req s));
               h4 = set_field h3 controllerInstance ''response'' (ResObj (res s));
               h5 = set_field h4 controllerInstance ''user'' (Val (user (req s)))
           in Inr (controllerInstance, h5)))"

text \<open>
  The arguments of \<^verbatim>\<open>mappedFunction.call(controllerInstance, ...values, body)\<close>: the
  values of the named parameters, then the request body without its
  \<^verbatim>\<open>access_token\<close>.
\<close>

definition call_arguments :: "string \<Rightarrow> request \<Rightarrow> (string \<times> jsval) list \<Rightarrow> jsval list" where
  "call_arguments pat r kvs =
     (let argNames = argumentNames pat;
          values = map (param r) argNames;
          rest = JObj (filter (\<lambda>kv. fst kv \<noteq> ''access_token'') kvs)
      in values @ [rest])"

text \<open>
  The terminal handler. Everything before the \<^verbatim>\<open>try\<close> block runs outside it: an
  exception there rejects the handler's promise. Destructuring \<^verbatim>\<open>request.body\<close>
  throws when the body is \<^verbatim>\<open>undefined\<close>.
\<close>

definition dispatcher ::
  "settings \<Rightarrow> container \<Rightarrow> string \<Rightarrow> nat \<Rightarrow> method_meta \<Rightarrow> heap \<Rightarrow> st \<Rightarrow> outcome" where
  "dispatcher settings container controllerName controller m h s =
     (case instance_for container controllerName controller h s of
        Inl e \<Rightarrow> Escaped e s
      | Inr (controllerInstance, h') \<Rightarrow>
          (case body (req s) of
             None \<Rightarrow> Escaped (type_error ''Cannot destructure undefined'') s
           | Some kvs \<Rightarrow>
               write_result
                 (try_block settings (serverSentEvents m)
                    (mappedFunction m controllerInstance h'
                       (call_arguments (route m) (req s) kvs)))
                 s))"

text \<open>The store after the dispatcher has prepared one request after another on it
  (a request whose controller cannot be resolved leaves it as it was).\<close>

fun dispatch_all :: "container \<Rightarrow> string \<Rightarrow> nat \<Rightarrow> heap \<Rightarrow> st list \<Rightarrow> heap" where
  "dispatch_all container controllerName controller h [] = h"
| "dispatch_all container controllerName controller h (s # ss) =
     (case instance_for container controllerName controller h s of
        Inl e \<Rightarrow> dispatch_all container controllerName controller h ss
      | Inr (i, h') \<Rightarrow> dispatch_all container controllerName controller h' ss)"

section \<open>Binding routes\<close>

text \<open>A registered route: the verb, the path pattern and the handlers behind it.\<close>

datatype entry =
  Entry (entry_verb: string) (entry_pattern: string) (entry_handler: "heap \<Rightarrow> st \<Rightarrow> outcome")

text \<open>The framework runs the handlers of a route in the order given; each middleware
  decides whether the next one runs.\<close>

fun run_handlers :: "middleware list \<Rightarrow> (st \<Rightarrow> outcome) \<Rightarrow> st \<Rightarrow> outcome" where
  "run_handlers [] final s = final s"
| "run_handlers (m # ms) final s =
     (case m s of
        Next s' \<Rightarrow> run_handlers ms final s'
      | Ended s' \<Rightarrow> Halted s'
      | NextError err s' \<Rightarrow> Failed err s')"

text \<open>
  The body of the inner \<^verbatim>\<open>forEach\<close>, for one method of a controller: nothing is
  registered without an \<^verbatim>\<open>httpVerb\<close>; otherwise the arguments of the registration
  call are evaluated, among them \<^verbatim>\<open>filesMiddleware(allowedUploads)\<close>, and then the
  route is registered. (A verb that is not a string names no method of the
  application object, and the call throws.)
\<close>

definition route_handlers :: "capabilities \<Rightarrow> method_meta \<Rightarrow> middleware \<Rightarrow> middleware list" where
  "route_handlers caps m files =
     [maybe (oauth_authenticate caps) (\<not> truthy (anonymous m)),
      maybe serverSentEventsMiddleware (truthy (serverSentEvents m)),
      injectUserMiddleware,
      maybe files (truthy (allowedUploads m))]"

definition bind_method ::
  "settings \<Rightarrow> capabilities \<Rightarrow> container \<Rightarrow> string \<Rightarrow> nat \<Rightarrow> method_meta
     \<Rightarrow> js_error + entry option" where
  "bind_method settings caps container controllerName controller m =
     (if \<not> truthy (httpVerb m) then Inr None
      else case filesMiddleware caps (allowedUploads m) of
             Inl e \<Rightarrow> Inl e
           | Inr files \<Rightarrow>
               (case httpVerb m of
                  JStr verb \<Rightarrow>
                    Inr (Some (Entry verb (route m)
                      (\<lambda>h. run_handlers (route_handlers caps m files)
                         (dispatcher settings container controllerName controller m h))))
                | _ \<Rightarrow> Inl (type_error ''app[httpVerb] is not a function'')))"

fun bind_methods ::
  "settings \<Rightarrow> capabilities \<Rightarrow> container \<Rightarrow> string \<Rightarrow> nat \<Rightarrow> method_meta list
     \<Rightarrow> js_error + entry list" where
  "bind_methods settings caps container controllerName controller [] = Inr []"
| "bind_methods settings caps container controllerName controller (m # ms) =
     (case bind_method settings caps container controllerName controller m of
        Inl e \<Rightarrow> Inl e
      | Inr bound \<Rightarrow>
          (case bind_methods settings caps container controllerName controller ms of
             Inl e \<Rightarrow> Inl e
           | Inr es \<Rightarrow> Inr (case bound of None \<Rightarrow> es | Some e \<Rightarrow> e # es)))"

text \<open>
  The outer \<^verbatim>\<open>forEach\<close>: each controller is resolved once through the container, and
  the methods defined on its prototype are bound. A controller is given by its name
  and the methods of its prototype.
\<close>

fun bind_controllers ::
  "settings \<Rightarrow> capabilities \<Rightarrow> container \<Rightarrow> (string \<times> method_meta list) list \<Rightarrow> heap
     \<Rightarrow> js_error + (entry list \<times> heap)" where
  "bind_controllers settings caps container [] h = Inr ([], h)"
| "bind_controllers settings caps container ((controllerName, ms) # cs) h =
     (case container controllerName h of
        Inl e \<Rightarrow> Inl e
      | Inr (controller, h1) \<Rightarrow>
          (case bind_methods settings caps container controllerName controller ms of
             Inl e \<Rightarrow> Inl e
           | Inr es \<Rightarrow>
               (case bind_controllers settings caps container cs h1 of
                  Inl e \<Rightarrow> Inl e
                | Inr (es', h2) \<Rightarrow> Inr (es @ es', h2))))"

text \<open>The catch-all registered last: \<^verbatim>\<open>response.sendStatus(404)\<close>. It answers the
  requests no route has taken, on a response no handler has written to.\<close>

definition not_found :: "heap \<Rightarrow> st \<Rightarrow> outcome" where
  "not_found h s = Done (respond [SendStatus 404] s)"

text \<open>The error-handling middleware registered after all routes: status 400 and the
  error's \<^verbatim>\<open>code\<close>, or the error itself when it has none.\<close>

definition error_handler :: "jsval \<Rightarrow> st \<Rightarrow> outcome" where
  "error_handler err s =
     (case status_json (JNum 400)
             (JObj [(''error'', if truthy (get_prop err ''code'') then get_prop err ''code'' else err),
                    (''ok'', JBool False)]) s of
        Inr s' \<Rightarrow> Done s'
      | Inl (e, s') \<Rightarrow> Escaped e s')"

text \<open>
  The exported function: the user repository is resolved for the OAuth model (the
  OAuth server built on it is the capability \<open>caps\<close>), then the login route, the
  routes of the controllers and the catch-all are registered, in this order. The
  error-handling middleware comes last and is part of the router below.
\<close>

definition RouteConfig ::
  "settings \<Rightarrow> capabilities \<Rightarrow> container \<Rightarrow> (string \<times> method_meta list) list \<Rightarrow> heap
     \<Rightarrow> js_error + (entry list \<times> heap)" where
  "RouteConfig settings caps container controllers h =
     (case container ''UserRepository'' h of
        Inl e \<Rightarrow> Inl e
      | Inr (userRepository, h0) \<Rightarrow>
          (case bind_controllers settings caps container controllers h0 of
             Inl e \<Rightarrow> Inl e
           | Inr (es, h') \<Rightarrow>
               Inr (Entry ''post'' (LOGIN_ROUTE settings)
                      (\<lambda>h. run_handlers [oauth_token caps] Passed)
                    # es @ [Entry ''all'' ''*'' not_found], h')))"

section \<open>The framework's router\<close>

text \<open>
  The framework matches a request against the registered routes in order. Its path
  matching is a parameter \<open>pm\<close> (pattern, then path, to the path parameters of a
  match); the pattern \<^verbatim>\<open>*\<close> matches every path, and a route registered with
  \<^verbatim>\<open>all\<close> matches every method. A handler chain that passes the request on lets
  the later routes see it; one that passes an error on reaches the error-handling
  middleware.
\<close>

type_synonym path_matcher = "string \<Rightarrow> string \<Rightarrow> (string \<times> string) list option"

definition matches :: "path_matcher \<Rightarrow> entry \<Rightarrow> request \<Rightarrow> (string \<times> string) list option" where
  "matches pm e r =
     (if entry_verb e = ''all'' \<or> entry_verb e = http_method r
      then (if entry_pattern e = ''*'' then Some [(''0'', path r)] else pm (entry_pattern e) (path r))
      else None)"

fun handle :: "path_matcher \<Rightarrow> entry list \<Rightarrow> heap \<Rightarrow> st \<Rightarrow> outcome" where
  "handle pm [] h s = Passed s"
| "handle pm (e # es) h s =
     (case matches pm e (req s) of
        None \<Rightarrow> handle pm es h s
      | Some ps \<Rightarrow>
          (case entry_handler e h (s\<lparr>req := (req s)\<lparr>params := ps\<rparr>\<rparr>) of
             Passed s' \<Rightarrow> handle pm es h s'
           | Failed err s' \<Rightarrow> error_handler err s' 
           | out \<Rightarrow> out))"

text \<open>
  What a client receives, read off the calls by the framework's contract:
  \<^verbatim>\<open>status(n)\<close> sets the status, \<^verbatim>\<open>json(v)\<close> sends \<open>v\<close> as the JSON body,
  \<^verbatim>\<open>sendStatus(n)\<close> sets the status and sends its reason phrase as the body,
  \<^verbatim>\<open>writeHead(n, headers)\<close> sets the status and sends no body.
\<close>

datatype payload = JsonBody jsval | ReasonPhrase int

fun body_of :: "call \<Rightarrow> payload option" where
  "body_of (Json v) = Some (JsonBody v)"
| "body_of (SendStatus n) = Some (ReasonPhrase n)"
| "body_of (Status v) = None"
| "body_of (WriteHead n hs) = None"

fun status_of :: "call \<Rightarrow> jsval option" where
  "status_of (Status v) = Some v"
| "status_of (SendStatus n) = Some (JNum n)"
| "status_of (WriteHead n hs) = Some (JNum n)"
| "status_of (Json v) = None"

definition sent_body :: "call list \<Rightarrow> payload option" where
  "sent_body cs = (case List.map_filter body_of cs of [] \<Rightarrow> None | b # bs \<Rightarrow> Some b)"

definition sent_status :: "call list \<Rightarrow> jsval option" where
  "sent_status cs = (case rev (List.map_filter status_of cs) of [] \<Rightarrow> None | v # vs \<Rightarrow> Some v)"

text \<open>The request and response as a handler left them.\<close>

fun outcome_state :: "outcome \<Rightarrow> st" where
  "outcome_state (Done s) = s"
| "outcome_state (Escaped e s) = s"
| "outcome_state (Waiting s) = s"
| "outcome_state (Halted s) = s"
| "outcome_state (Failed err s) = s"
| "outcome_state (Passed s) = s"

section \<open>Route patterns, as the specification describes them\<close>

text \<open>
  A path pattern is literal text with named parameters \<^verbatim>\<open>:name\<close> in it: a literal
  prefix, then each parameter followed by the literal text up to the next one. A name
  is made of word characters, and the literal after it does not go on with one; the
  literals hold no colon.
\<close>

fun stops :: "string \<Rightarrow> bool" where
  "stops [] = True"
| "stops (c # cs) = (\<not> word_char c)"

fun pattern :: "string \<Rightarrow> (string \<times> string) list \<Rightarrow> string" where
  "pattern pre [] = pre"
| "pattern pre ((n, lit) # segs) = pre @ CHR '':'' # n @ pattern lit segs"

fun segment_ok :: "string \<times> string \<Rightarrow> bool" where
  "segment_ok (n, lit) = (list_all word_char n \<and> CHR '':'' \<notin> set lit \<and> stops lit)"

section \<open>Sample configuration\<close>

text \<open>A small configuration on which the theorems below are instantiated: one
  controller at address 0, a route with a named parameter, and containers of each
  kind.\<close>

definition sample_settings :: settings where
  "sample_settings = \<lparr>ACCESS_TOKEN_LIFETIME = 3600, API_TIMEOUT = 30000, LOGIN_ROUTE = ''/oauth/token''\<rparr>"

definition sample_heap :: heap where
  "sample_heap = [\<lparr>proto = None, props = []\<rparr>]"

definition singleton_container :: container where
  "singleton_container = (\<lambda>controllerName h. Inr (0, h))"

definition transient_container :: container where
  "transient_container = (\<lambda>controllerName h. Inr (length h, h @ [\<lparr>proto = None, props = []\<rparr>]))"

text \<open>A container that resolves the controller while the store holds the shared
  instance only, as during the scan, and fails to once requests have added to it.\<close>

definition flaky_container :: container where
  "flaky_container =
     (\<lambda>controllerName h. if length h \<le> 1 then Inr (0, h)
                          else Inl (Error ''cannot constitute'' None))"

definition sample_caps :: capabilities where
  "sample_caps =
     \<lparr>oauth_authenticate = (\<lambda>s. Ended (respond [Status (JNum 401)] s)),
      oauth_token = (\<lambda>s. Ended (respond [Status (JNum 200)] s)),
      multer_fields = (\<lambda>spec s. Next s),
      multer_any = (\<lambda>s. Next s)\<rparr>"

definition sample_request :: request where
  "sample_request =
     \<lparr>http_method = ''post'', path = ''/v1/provisioning/abc'',
      params = [(''coreID'', ''abc'')],
      body = Some [(''access_token'', JStr ''secret''), (''publicKey'', JStr ''key'')],
      user = JStr ''alice'', noDelay = False\<rparr>"

definition sample_st :: st where
  "sample_st = \<lparr>req = sample_request, res = \<lparr>locals_oauth = JUndefined, calls = []\<rparr>\<rparr>"


definition other_st :: st where
  "other_st = \<lparr>req = sample_request\<lparr>user := JStr ''bob''\<rparr>,
               res = \<lparr>locals_oauth = JUndefined, calls = []\<rparr>\<rparr>"

text \<open>Sample methods: one answers at once with its arguments, one with a given value,
  one with a promise that settles after a given time, one throws.\<close>

definition created :: jsval where
  "created = JObj [(''status'', JNum 201), (''data'', JObj [(''id'', JStr ''abc'')])]"

definition sample_meta :: "jsval \<Rightarrow> js_method \<Rightarrow> method_meta" where
  "sample_meta sse f =
     \<lparr>allowedUploads = JUndefined, anonymous = JUndefined, httpVerb = JStr ''post'',
      route = ''/v1/provisioning/:coreID'', serverSentEvents = sse, mappedFunction = f\<rparr>"

text \<open>An anonymous route with server-sent events whose method answers a millisecond
  after the call.\<close>

definition sse_meta :: method_meta where
  "sse_meta =
     (sample_meta (JBool True) (\<lambda>this h args. Returns (Deferred (Some (1, Fulfilled created)))))
       \<lparr>anonymous := JBool True\<rparr>"

definition echo_method :: js_method where
  "echo_method = (\<lambda>this h args. Returns (Value (JObj [(''status'', JNum 200), (''data'', JArr args)])))"

definition value_method :: "jsval \<Rightarrow> js_method" where
  "value_method v = (\<lambda>this h args. Returns (Value v))"

definition deferred_method :: "promise \<Rightarrow> js_method" where
  "deferred_method p = (\<lambda>this h args. Returns (Deferred p))"


text \<open>A path matcher that knows literal paths only, a request for a path nobody
  registered, and the routes of the sample controller.\<close>

definition literal_matcher :: path_matcher where
  "literal_matcher = (\<lambda>pat p. if pat = p then Some [] else None)"

definition stray_st :: st where
  "stray_st = \<lparr>req = \<lparr>http_method = ''get'', path = ''/nowhere'', params = [], body = Some [],
                        user = JUndefined, noDelay = False\<rparr>,
               res = \<lparr>locals_oauth = JUndefined, calls = []\<rparr>\<rparr>"

definition sample_controllers :: "(string \<times> method_meta list) list" where
  "sample_controllers = [(''C'', [sample_meta JUndefined echo_method])]"

definition sample_table :: "entry list" where
  "sample_table =
     (case RouteConfig sample_settings sample_caps singleton_container sample_controllers sample_heap of
        Inl e \<Rightarrow> []
      | Inr (table, h) \<Rightarrow> table)"

section \<open>Arguments of the controller method\<close>

lemma colon_not_word: "\<not> word_char (CHR '':'')"
  by (simp add: word_char_def)







lemma pattern_Cons: "pattern (c # pre) segs = c # pattern pre segs"
  by (cases segs) auto

lemma stops_dropWhile: "stops (dropWhile word_char cs)"
  by (induction cs) auto

lemma stops_prefix: "stops (pattern lit segs) \<Longrightarrow> stops lit"
  by (cases lit; cases segs) (auto simp: colon_not_word)

lemma every_route_is_a_pattern:
  "\<exists>pre segs. r = pattern pre segs \<and> CHR '':'' \<notin> set pre \<and> list_all segment_ok segs"
proof (induction r rule: match_all.induct)
  case 1
  have "[] = pattern [] [] \<and> CHR '':'' \<notin> set [] \<and> list_all segment_ok []" by simp
  then show ?case by blast
next
  case (2 c cs)
  show ?case
  proof (cases "c = CHR '':''")
    case True
    from 2(1) [OF True] obtain lit segs where
      d: "dropWhile word_char cs = pattern lit segs" "CHR '':'' \<notin> set lit" "list_all segment_ok segs"
      by blast
    have "stops lit" using stops_dropWhile [of cs] d(1) stops_prefix by simp
    moreover have "list_all word_char (takeWhile word_char cs)"
      by (simp add: list_all_iff) (meson set_takeWhileD)
    ultimately have ok: "list_all segment_ok ((takeWhile word_char cs, lit) # segs)"
      using d by simp
    have "c # cs = pattern [] ((takeWhile word_char cs, lit) # segs)"
      using True d(1) [symmetric] by simp
    with ok show ?thesis by (metis empty_iff list.set(1))
  next
    case False
    from 2(2) [OF False] obtain pre segs where
      d: "cs = pattern pre segs" "CHR '':'' \<notin> set pre" "list_all segment_ok segs" by blast
    then have "c # cs = pattern (c # pre) segs \<and> CHR '':'' \<notin> set (c # pre)"
      using False by (simp add: pattern_Cons)
    with d(3) show ?thesis by blast
  qed
qed





section \<open>Per-request controller instances\<close>

lemma dispatcher_prepared:
  assumes "instance_for container cn controller h s = Inr (this, h')"
    and "body (req s) = Some kvs"
  shows "dispatcher settings container cn controller m h s =
           write_result
             (try_block settings (serverSentEvents m)
                (mappedFunction m this h' (call_arguments (route m) (req s) kvs))) s"
  using assms by (simp add: dispatcher_def)

lemma instance_for_singleton:
  assumes "container cn h = Inr (controller, h1)"
  shows "instance_for container cn controller h s =
           Inr (length h1,
                h1 @ [\<lparr>proto = Some controller,
                       props = [(''request'', ReqObj (req s)),
                                (''response'', ResObj (res s)),
                                (''user'', Val (user (req s)))]\<rparr>])"
  using assms by (simp add: instance_for_def Object_create_def set_field_def)

lemma length_set_field: "length (set_field h a k v) = length h"
  by (simp add: set_field_def)

lemma instance_for_fresh:
  assumes "container cn h = Inr (ci, h1)" and "ci \<noteq> controller"
  shows "instance_for container cn controller h s =
           Inr (ci, set_field (set_field (set_field h1 ci ''request'' (ReqObj (req s)))
                      ci ''response'' (ResObj (res s))) ci ''user'' (Val (user (req s))))"
  using assms by (simp add: instance_for_def)

lemma get_field_own:
  assumes "a < length h" and "map_of (props (h ! a)) k = Some v"
  shows "get_field h a k = Some v"
proof -
  from assms(1) obtain n where "length h = Suc n" by (cases "length h") auto
  then show ?thesis using assms by (simp add: get_field_def)
qed

text \<open>
  Claim C1. When the container resolves the controller to the instance of the scan (a
  singleton), each request gets an object of its own, freshly allocated, whose
  prototype is the shared instance, and the request, the response and the user are
  attached to that object: of two requests in flight, each reads its own three fields
  from its own object, also after the other has been prepared. When the container
  supplies another instance, that instance itself receives the fields and nothing is
  allocated. In both cases the object that received the fields is the receiver of the
  controller method.
\<close>

theorem per_request_instance:
  assumes "controller < length h"
  shows "((\<forall>h'. container cn h' = Inr (controller, h')) \<longrightarrow>
            (\<exists>h1 h2. instance_for container cn controller h s1 = Inr (length h, h1)
               \<and> instance_for container cn controller h1 s2 = Inr (Suc (length h), h2)
               \<and> length h \<noteq> controller \<and> Suc (length h) \<noteq> controller
               \<and> proto (h2 ! length h) = Some controller
               \<and> proto (h2 ! Suc (length h)) = Some controller
               \<and> get_field h2 (length h) ''request'' = Some (ReqObj (req s1))
               \<and> get_field h2 (length h) ''response'' = Some (ResObj (res s1))
               \<and> get_field h2 (length h) ''user'' = Some (Val (user (req s1)))
               \<and> get_field h2 (Suc (length h)) ''request'' = Some (ReqObj (req s2))
               \<and> get_field h2 (Suc (length h)) ''response'' = Some (ResObj (res s2))
               \<and> get_field h2 (Suc (length h)) ''user'' = Some (Val (user (req s2)))
               \<and> (\<forall>kvs. body (req s1) = Some kvs \<longrightarrow>
                     dispatcher settings container cn controller m h s1
                       = write_result
                           (try_block settings (serverSentEvents m)
                              (mappedFunction m (length h) h1
                                 (call_arguments (route m) (req s1) kvs))) s1)))
       \<and> (\<forall>ci h1. container cn h = Inr (ci, h1) \<and> ci \<noteq> controller \<and> ci < length h1 \<longrightarrow>
            (\<exists>h2. instance_for container cn controller h s1 = Inr (ci, h2)
               \<and> length h2 = length h1
               \<and> proto (h2 ! ci) = proto (h1 ! ci)
               \<and> get_field h2 ci ''request'' = Some (ReqObj (req s1))
               \<and> get_field h2 ci ''response'' = Some (ResObj (res s1))
               \<and> get_field h2 ci ''user'' = Some (Val (user (req s1)))
               \<and> (\<forall>kvs. body (req s1) = Some kvs \<longrightarrow>
                     dispatcher settings container cn controller m h s1
                       = write_result
                           (try_block settings (serverSentEvents m)
                              (mappedFunction m ci h2
                                 (call_arguments (route m) (req s1) kvs))) s1)))"
proof (intro conjI impI allI)
  assume single: "\<forall>h'. container cn h' = Inr (controller, h')"
  let ?o1 = "\<lparr>proto = Some controller,
               props = [(''request'', ReqObj (req s1)), (''response'', ResObj (res s1)),
                        (''user'', Val (user (req s1)))]\<rparr>"
  let ?o2 = "\<lparr>proto = Some controller,
               props = [(''request'', ReqObj (req s2)), (''response'', ResObj (res s2)),
                        (''user'', Val (user (req s2)))]\<rparr>"
  have 1: "instance_for container cn controller h s1 = Inr (length h, h @ [?o1])"
    using instance_for_singleton [of container cn h controller h s1] single by simp
  have 2: "instance_for container cn controller (h @ [?o1]) s2
             = Inr (Suc (length h), h @ [?o1, ?o2])"
    using instance_for_singleton [of container cn "h @ [?o1]" controller "h @ [?o1]" s2] single
    by simp
  have a1: "(h @ [?o1, ?o2]) ! length h = ?o1" by (simp add: nth_append)
  have a2: "(h @ [?o1, ?o2]) ! Suc (length h) = ?o2" by (simp add: nth_append)
  have l1: "length h < length (h @ [?o1, ?o2])" by simp
  have l2: "Suc (length h) < length (h @ [?o1, ?o2])" by simp
  show "\<exists>h1 h2. instance_for container cn controller h s1 = Inr (length h, h1)
               \<and> instance_for container cn controller h1 s2 = Inr (Suc (length h), h2)
               \<and> length h \<noteq> controller \<and> Suc (length h) \<noteq> controller
               \<and> proto (h2 ! length h) = Some controller
               \<and> proto (h2 ! Suc (length h)) = Some controller
               \<and> get_field h2 (length h) ''request'' = Some (ReqObj (req s1))
               \<and> get_field h2 (length h) ''response'' = Some (ResObj (res s1))
               \<and> get_field h2 (length h) ''user'' = Some (Val (user (req s1)))
               \<and> get_field h2 (Suc (length h)) ''request'' = Some (ReqObj (req s2))
               \<and> get_field h2 (Suc (length h)) ''response'' = Some (ResObj (res s2))
               \<and> get_field h2 (Suc (length h)) ''user'' = Some (Val (user (req s2)))
               \<and> (\<forall>kvs. body (req s1) = Some kvs \<longrightarrow>
                     dispatcher settings container cn controller m h s1
                       = write_result
                           (try_block settings (serverSentEvents m)
                              (mappedFunction m (length h) h1
                                 (call_arguments (route m) (req s1) kvs))) s1)"
  proof (intro exI conjI)
    show "instance_for container cn controller h s1 = Inr (length h, h @ [?o1])"
      by (rule 1)
    show "instance_for container cn controller (h @ [?o1]) s2
            = Inr (Suc (length h), h @ [?o1, ?o2])"
      by (rule 2)
    show "length h \<noteq> controller" and "Suc (length h) \<noteq> controller"
      using assms by simp_all
    show "proto ((h @ [?o1, ?o2]) ! length h) = Some controller"
      by (simp add: a1)
    show "proto ((h @ [?o1, ?o2]) ! Suc (length h)) = Some controller"
      by (simp add: a2)
    show "get_field (h @ [?o1, ?o2]) (length h) ''request'' = Some (ReqObj (req s1))"
      by (rule get_field_own [OF l1]) (simp add: a1)
    show "get_field (h @ [?o1, ?o2]) (length h) ''response'' = Some (ResObj (res s1))"
      by (rule get_field_own [OF l1]) (simp add: a1)
    show "get_field (h @ [?o1, ?o2]) (length h) ''user'' = Some (Val (user (req s1)))"
      by (rule get_field_own [OF l1]) (simp add: a1)
    show "get_field (h @ [?o1, ?o2]) (Suc (length h)) ''request'' = Some (ReqObj (req s2))"
      by (rule get_field_own [OF l2]) (simp add: a2)
    show "get_field (h @ [?o1, ?o2]) (Suc (length h)) ''response'' = Some (ResObj (res s2))"
      by (rule get_field_own [OF l2]) (simp add: a2)
    show "get_field (h @ [?o1, ?o2]) (Suc (length h)) ''user'' = Some (Val (user (req s2)))"
      by (rule get_field_own [OF l2]) (simp add: a2)
    show "\<forall>kvs. body (req s1) = Some kvs \<longrightarrow>
            dispatcher settings container cn controller m h s1
              = write_result
                  (try_block settings (serverSentEvents m)
                     (mappedFunction m (length h) (h @ [?o1])
                        (call_arguments (route m) (req s1) kvs))) s1"
      using dispatcher_prepared [OF 1] by blast
  qed
next
  fix ci h1
  assume a: "container cn h = Inr (ci, h1) \<and> ci \<noteq> controller \<and> ci < length h1"
  let ?ha = "set_field h1 ci ''request'' (ReqObj (req s1))"
  let ?hb = "set_field ?ha ci ''response'' (ResObj (res s1))"
  let ?hc = "set_field ?hb ci ''user'' (Val (user (req s1)))"
  have i: "instance_for container cn controller h s1 = Inr (ci, ?hc)"
    using a instance_for_fresh by simp
  have len: "length ?hc = length h1" by (simp add: length_set_field)
  have pr: "proto (?hc ! ci) = proto (h1 ! ci)" using a by (simp add: set_field_def)
  have ps: "props (?hc ! ci) =
              AList.update ''user'' (Val (user (req s1)))
                (AList.update ''response'' (ResObj (res s1))
                  (AList.update ''request'' (ReqObj (req s1)) (props (h1 ! ci))))"
    using a by (simp add: set_field_def)
  have lt: "ci < length ?hc" using a len by simp
  have "get_field ?hc ci ''request'' = Some (ReqObj (req s1))"
    by (rule get_field_own [OF lt]) (simp add: ps update_Some_unfold)
  moreover have "get_field ?hc ci ''response'' = Some (ResObj (res s1))"
    by (rule get_field_own [OF lt]) (simp add: ps update_Some_unfold)
  moreover have "get_field ?hc ci ''user'' = Some (Val (user (req s1)))"
    by (rule get_field_own [OF lt]) (simp add: ps update_Some_unfold)
  moreover have "\<forall>kvs. body (req s1) = Some kvs \<longrightarrow>
            dispatcher settings container cn controller m h s1
              = write_result
                  (try_block settings (serverSentEvents m)
                     (mappedFunction m ci ?hc (call_arguments (route m) (req s1) kvs))) s1"
    using dispatcher_prepared [OF i] by blast
  ultimately show "\<exists>h2. instance_for container cn controller h s1 = Inr (ci, h2)
               \<and> length h2 = length h1
               \<and> proto (h2 ! ci) = proto (h1 ! ci)
               \<and> get_field h2 ci ''request'' = Some (ReqObj (req s1))
               \<and> get_field h2 ci ''response'' = Some (ResObj (res s1))
               \<and> get_field h2 ci ''user'' = Some (Val (user (req s1)))
               \<and> (\<forall>kvs. body (req s1) = Some kvs \<longrightarrow>
                     dispatcher settings container cn controller m h s1
                       = write_result
                           (try_block settings (serverSentEvents m)
                              (mappedFunction m ci h2
                                 (call_arguments (route m) (req s1) kvs))) s1)"
    using i len pr by blast
qed

theorem per_request_instance_witness:
  "(\<exists>h1 h2. instance_for singleton_container ''C'' 0 sample_heap sample_st = Inr (1, h1)
      \<and> instance_for singleton_container ''C'' 0 h1 other_st = Inr (2, h2)
      \<and> proto (h2 ! 1) = Some 0 \<and> proto (h2 ! 2) = Some 0
      \<and> get_field h2 1 ''user'' = Some (Val (JStr ''alice''))
      \<and> get_field h2 2 ''user'' = Some (Val (JStr ''bob'')))
   \<and> (\<exists>h2. instance_for transient_container ''C'' 0 sample_heap sample_st = Inr (1, h2)
      \<and> length h2 = 2 \<and> proto (h2 ! 1) = None
      \<and> get_field h2 1 ''user'' = Some (Val (JStr ''alice'')))"
proof -
  let ?m = "sample_meta JUndefined echo_method"
  have lt: "0 < length sample_heap" by (simp add: sample_heap_def)
  have single: "\<forall>h'. singleton_container ''C'' h' = Inr (0, h')"
    by (simp add: singleton_container_def)
  have len: "length sample_heap = 1" by (simp add: sample_heap_def)
  have u1: "user (req sample_st) = JStr ''alice''" by (simp add: sample_st_def sample_request_def)
  have u2: "user (req other_st) = JStr ''bob''" by (simp add: other_st_def sample_request_def)
  have fresh: "transient_container ''C'' sample_heap
                 = Inr (1, sample_heap @ [\<lparr>proto = None, props = []\<rparr>])
               \<and> (1::nat) \<noteq> 0 \<and> 1 < length (sample_heap @ [\<lparr>proto = None, props = []\<rparr>])"
    by (simp add: transient_container_def sample_heap_def)
  have A: "\<exists>h1 h2. instance_for singleton_container ''C'' 0 sample_heap sample_st = Inr (1, h1)
      \<and> instance_for singleton_container ''C'' 0 h1 other_st = Inr (2, h2)
      \<and> proto (h2 ! 1) = Some 0 \<and> proto (h2 ! 2) = Some 0
      \<and> get_field h2 1 ''user'' = Some (Val (JStr ''alice''))
      \<and> get_field h2 2 ''user'' = Some (Val (JStr ''bob''))"
  proof -
    from per_request_instance [OF lt, of singleton_container "''C''" sample_st other_st
        sample_settings ?m] single
    obtain h1 h2 where
      "instance_for singleton_container ''C'' 0 sample_heap sample_st = Inr (length sample_heap, h1)"
      "instance_for singleton_container ''C'' 0 h1 other_st = Inr (Suc (length sample_heap), h2)"
      "proto (h2 ! length sample_heap) = Some 0"
      "proto (h2 ! Suc (length sample_heap)) = Some 0"
      "get_field h2 (length sample_heap) ''user'' = Some (Val (user (req sample_st)))"
      "get_field h2 (Suc (length sample_heap)) ''user'' = Some (Val (user (req other_st)))"
      by blast
    then show ?thesis using len u1 u2 by (auto simp: numeral_2_eq_2)
  qed
  have B: "\<exists>h2. instance_for transient_container ''C'' 0 sample_heap sample_st = Inr (1, h2)
      \<and> length h2 = 2 \<and> proto (h2 ! 1) = None
      \<and> get_field h2 1 ''user'' = Some (Val (JStr ''alice''))"
  proof -
    from per_request_instance [OF lt, of transient_container "''C''" sample_st other_st
        sample_settings ?m] fresh
    obtain h2 where "instance_for transient_container ''C'' 0 sample_heap sample_st = Inr (1, h2)"
      "length h2 = length (sample_heap @ [\<lparr>proto = None, props = []\<rparr>])"
      "proto (h2 ! 1) = proto ((sample_heap @ [\<lparr>proto = None, props = []\<rparr>]) ! 1)"
      "get_field h2 1 ''user'' = Some (Val (user (req sample_st)))"
      by blast
    then show ?thesis using u1 len by (auto simp: nth_append)
  qed
  from A B show ?thesis by blast
qed

section \<open>The shared instance is not written\<close>

lemma instance_for_spares_shared:
  assumes "container cn h = Inr (ci, h1)" and "controller < length h1"
    and "instance_for container cn controller h s = Inr (i, h2)"
  shows "h2 ! controller = h1 ! controller"
proof (cases "ci = controller")
  case True
  with assms(1) instance_for_singleton [of container cn h controller h1 s] assms(3)
  have "h2 = h1 @ [\<lparr>proto = Some controller,
                     props = [(''request'', ReqObj (req s)), (''response'', ResObj (res s)),
                              (''user'', Val (user (req s)))]\<rparr>]"
    by simp
  then show ?thesis using assms(2) by (simp add: nth_append)
next
  case False
  with assms(1) instance_for_fresh [of container cn h ci h1 controller s] assms(3)
  have "h2 = set_field (set_field (set_field h1 ci ''request'' (ReqObj (req s)))
                ci ''response'' (ResObj (res s))) ci ''user'' (Val (user (req s)))"
    by simp
  then show ?thesis using False by (simp add: set_field_def)
qed

lemma dispatch_all_extends:
  assumes "\<forall>h'. container cn h' = Inr (controller, h')"
  shows "\<exists>extra. dispatch_all container cn controller h ss = h @ extra"
proof (induction ss arbitrary: h)
  case Nil
  show ?case by simp
next
  case (Cons s ss)
  let ?o = "\<lparr>proto = Some controller,
              props = [(''request'', ReqObj (req s)), (''response'', ResObj (res s)),
                       (''user'', Val (user (req s)))]\<rparr>"
  have "instance_for container cn controller h s = Inr (length h, h @ [?o])"
    using instance_for_singleton [of container cn h controller h s] assms by simp
  then have "dispatch_all container cn controller h (s # ss)
               = dispatch_all container cn controller (h @ [?o]) ss" by simp
  moreover from Cons.IH [of "h @ [?o]"] obtain extra
    where "dispatch_all container cn controller (h @ [?o]) ss = (h @ [?o]) @ extra" by blast
  ultimately show ?case by simp
qed

text \<open>
  Claim C9. With a singleton container, however many requests the dispatcher prepares,
  the shared controller instance is left exactly as it was (its own properties and its
  prototype link), and so is every other object that existed before: the writes of
  \<^verbatim>\<open>request\<close>, \<^verbatim>\<open>response\<close> and \<^verbatim>\<open>user\<close> go to the objects created
  for the requests, one per request.
\<close>

theorem shared_instance_unchanged:
  assumes "\<forall>h'. container cn h' = Inr (controller, h')" and "controller < length h"
  shows "dispatch_all container cn controller h ss ! controller = h ! controller
         \<and> take (length h) (dispatch_all container cn controller h ss) = h
         \<and> length (dispatch_all container cn controller h ss) = length h + length ss"
proof -
  from dispatch_all_extends [of container cn controller h ss] assms(1) obtain extra
    where e: "dispatch_all container cn controller h ss = h @ extra" by blast
  have "length (dispatch_all container cn controller h ss) = length h + length ss"
    using assms(1)
  proof (induction ss arbitrary: h)
    case Nil
    show ?case by simp
  next
    case (Cons s ss)
    let ?o = "\<lparr>proto = Some controller,
                props = [(''request'', ReqObj (req s)), (''response'', ResObj (res s)),
                         (''user'', Val (user (req s)))]\<rparr>"
    have "instance_for container cn controller h s = Inr (length h, h @ [?o])"
      using instance_for_singleton [of container cn h controller h s] Cons.prems by simp
    then show ?case using Cons.IH [OF Cons.prems, of "h @ [?o]"] by simp
  qed
  with e assms(2) show ?thesis by (simp add: nth_append)
qed

theorem shared_instance_unchanged_witness:
  "dispatch_all singleton_container ''C'' 0 sample_heap [sample_st, other_st, sample_st] ! 0
     = \<lparr>proto = None, props = []\<rparr>
   \<and> length (dispatch_all singleton_container ''C'' 0 sample_heap [sample_st, other_st, sample_st]) = 4"
proof -
  have single: "\<forall>h'. singleton_container ''C'' h' = Inr (0, h')"
    by (simp add: singleton_container_def)
  have lt: "0 < length sample_heap" by (simp add: sample_heap_def)
  from shared_instance_unchanged
         [of singleton_container "''C''" 0 sample_heap "[sample_st, other_st, sample_st]"]
       single lt
  show ?thesis by (simp add: sample_heap_def)
qed


section \<open>What the dispatcher answers\<close>

lemma timer_delay_positive: "0 < timer_delay ms"
  by (simp add: timer_delay_def)

lemma timer_delay_configured:
  "1 \<le> ms \<Longrightarrow> ms \<le> 2147483647 \<Longrightarrow> int (timer_delay ms) = ms"
  by (simp add: timer_delay_def)



lemma settle_business_first:
  assumes "\<not> truthy sse" and "t < timer_delay timeout"
  shows "settle timeout sse (Some (t, x)) =
           (case x of
              Rejected e \<Rightarrow> Fails e
            | Fulfilled v \<Rightarrow>
                (case nullthrows v of
                   Inl e \<Rightarrow> Fails e
                 | Inr r \<Rightarrow> Responds (get_prop r ''status'') (get_prop r ''data'')))"
  using assms by (auto simp: settle_def Promise_race_def split: settlement.splits)

lemma settle_settled:
  "settle timeout sse (Some (0, x)) =
           (case x of
              Rejected e \<Rightarrow> Fails e
            | Fulfilled v \<Rightarrow>
                (case nullthrows v of
                   Inl e \<Rightarrow> Fails e
                 | Inr r \<Rightarrow> Responds (get_prop r ''status'') (get_prop r ''data'')))"
  by (auto simp: settle_def Promise_race_def timer_delay_positive split: settlement.splits)

lemma settle_null_first:
  assumes "truthy sse" and "p = None \<or> (\<exists>t x. p = Some (t, x) \<and> 0 < t)"
  shows "settle timeout sse p = Fails (Error ''Got unexpected null or undefined'' None)"
  using assms by (auto simp: settle_def Promise_race_def nullthrows_def)

lemma settle_settles: "settle timeout sse p \<noteq> Never"
  by (cases p) (auto simp: settle_def Promise_race_def split: settlement.splits sum.splits if_splits)

lemma try_block_settles: "try_block settings sse r \<noteq> Never"
  by (auto simp: try_block_def settle_settles split: call_result.splits returned.splits)

lemma nullthrows_value: "\<not> nullish v \<Longrightarrow> nullthrows v = Inr v"
  by (auto simp: nullthrows_def nullish_def)


lemma try_block_value:
  assumes "\<not> nullish v"
  shows "try_block settings sse (Returns (Value v))
           = Responds (get_prop v ''status'') (get_prop v ''data'')"
  using assms by (simp add: try_block_def settle_settled nullthrows_value)

lemma status_json_unsent:
  "\<not> headers_sent (calls (res s)) \<Longrightarrow> status_json sv d s = Inr (respond [Status sv, Json d] s)"
  by (simp add: status_json_def respond_def headers_sent_def Let_def)

lemma status_json_sent:
  "headers_sent (calls (res s)) \<Longrightarrow> status_json sv d s = Inl (headers_error, respond [Status sv] s)"
  by (simp add: status_json_def respond_def headers_sent_def Let_def)

lemma write_result_responds:
  "\<not> headers_sent (calls (res s)) \<Longrightarrow>
     write_result (Responds sv d) s = Done (respond [Status sv, Json d] s)"
  by (simp add: write_result_def status_json_unsent)

lemma write_result_fails:
  "\<not> headers_sent (calls (res s)) \<Longrightarrow>
     write_result (Fails e) s
       = Done (respond [Status (JNum (status (HttpError e))),
                        Json (JObj [(''error'', JStr (message (HttpError e))), (''ok'', JBool False)])] s)"
  by (simp add: write_result_def catch_block_def status_json_unsent Let_def)

lemma write_result_fails_sent:
  "headers_sent (calls (res s)) \<Longrightarrow>
     write_result (Fails e) s
       = Escaped headers_error (respond [Status (JNum (status (HttpError e)))] s)"
  by (simp add: write_result_def catch_block_def status_json_sent Let_def)

lemma write_result_responds_sent:
  "headers_sent (calls (res s)) \<Longrightarrow>
     write_result (Responds sv d) s
       = Escaped headers_error
           (respond [Status sv, Status (JNum (status (HttpError headers_error)))] s)"
  by (simp add: write_result_def catch_block_def status_json_def respond_def headers_sent_def
      Let_def)

lemma calls_respond: "calls (res (respond cs s)) = calls (res s) @ cs"
  by (simp add: respond_def)

lemma unsent_no_body: "\<not> headers_sent cs \<Longrightarrow> List.map_filter body_of cs = []"
proof (induction cs)
  case Nil
  show ?case by (simp add: List.map_filter_simps)
next
  case (Cons c cs)
  then show ?case by (cases c) (simp_all add: headers_sent_def List.map_filter_simps)
qed

lemma sent_after_answer:
  assumes "\<not> headers_sent cs"
  shows "sent_status (cs @ [Status x, Json y]) = Some x"
    and "sent_body (cs @ [Status x, Json y]) = Some (JsonBody y)"
proof -
  show "sent_status (cs @ [Status x, Json y]) = Some x"
    by (simp add: sent_status_def List.map_filter_def)
  have "List.map_filter body_of (cs @ [Status x, Json y]) = [JsonBody y]"
    using unsent_no_body [OF assms] by (simp add: List.map_filter_def)
  then show "sent_body (cs @ [Status x, Json y]) = Some (JsonBody y)"
    by (simp add: sent_body_def)
qed


lemma sample_prepared:
  "instance_for singleton_container ''C'' 0 sample_heap sample_st
     = Inr (1, sample_heap @ [\<lparr>proto = Some 0,
                 props = [(''request'', ReqObj (req sample_st)),
                          (''response'', ResObj (res sample_st)),
                          (''user'', Val (user (req sample_st)))]\<rparr>])"
  by (simp add: instance_for_def singleton_container_def Object_create_def set_field_def
      sample_heap_def)

lemma sample_body:
  "body (req sample_st) = Some [(''access_token'', JStr ''secret''), (''publicKey'', JStr ''key'')]"
  by (simp add: sample_st_def sample_request_def)

lemma sample_unsent: "\<not> headers_sent (calls (res sample_st))"
  by (simp add: sample_st_def headers_sent_def)

lemma sample_delay: "timer_delay (API_TIMEOUT sample_settings) = 30000"
  by (simp add: sample_settings_def timer_delay_def)

lemma created_fields:
  "\<not> nullish created \<and> get_prop created ''status'' = JNum 201
   \<and> get_prop created ''data'' = JObj [(''id'', JStr ''abc'')]"
  by (simp add: created_def nullish_def)




text \<open>
  Claim C5. When the controller method returns a value with a status and data, at once
  or as a promise fulfilled before the timer fires on a route without server-sent
  events, and the head of the response has not been written, the handler answers with
  \<^verbatim>\<open>status(value.status)\<close> and \<^verbatim>\<open>json(value.data)\<close> and nothing else: the client
  receives exactly that status and exactly that data as the JSON body. (The timer
  fires after the configured timeout whenever that lies between 1 and 2147483647
  milliseconds.)
\<close>

theorem success_round_trip:
  assumes "instance_for container cn controller h s = Inr (this, h')"
    and "body (req s) = Some kvs"
    and "\<not> nullish v"
    and "\<not> headers_sent (calls (res s))"
  shows "(mappedFunction m this h' (call_arguments (route m) (req s) kvs) = Returns (Value v)
            \<longrightarrow> dispatcher settings container cn controller m h s
                  = Done (respond [Status (get_prop v ''status''), Json (get_prop v ''data'')] s))
       \<and> (\<forall>t. mappedFunction m this h' (call_arguments (route m) (req s) kvs)
                 = Returns (Deferred (Some (t, Fulfilled v)))
               \<and> \<not> truthy (serverSentEvents m) \<and> t < timer_delay (API_TIMEOUT settings)
            \<longrightarrow> dispatcher settings container cn controller m h s
                  = Done (respond [Status (get_prop v ''status''), Json (get_prop v ''data'')] s))
       \<and> calls (res (respond [Status (get_prop v ''status''), Json (get_prop v ''data'')] s))
           = calls (res s) @ [Status (get_prop v ''status''), Json (get_prop v ''data'')]
       \<and> sent_status (calls (res (respond [Status (get_prop v ''status''),
                                           Json (get_prop v ''data'')] s)))
           = Some (get_prop v ''status'')
       \<and> sent_body (calls (res (respond [Status (get_prop v ''status''),
                                         Json (get_prop v ''data'')] s)))
           = Some (JsonBody (get_prop v ''data''))
       \<and> (1 \<le> API_TIMEOUT settings \<and> API_TIMEOUT settings \<le> 2147483647
             \<longrightarrow> int (timer_delay (API_TIMEOUT settings)) = API_TIMEOUT settings)"
proof (intro conjI impI allI)
  assume "mappedFunction m this h' (call_arguments (route m) (req s) kvs) = Returns (Value v)"
  then show "dispatcher settings container cn controller m h s
                  = Done (respond [Status (get_prop v ''status''), Json (get_prop v ''data'')] s)"
    using dispatcher_prepared [OF assms(1,2), of settings m] try_block_value [OF assms(3)]
      write_result_responds [OF assms(4)]
    by simp
next
  fix t
  assume a: "mappedFunction m this h' (call_arguments (route m) (req s) kvs)
                 = Returns (Deferred (Some (t, Fulfilled v)))
               \<and> \<not> truthy (serverSentEvents m) \<and> t < timer_delay (API_TIMEOUT settings)"
  then have "try_block settings (serverSentEvents m) (Returns (Deferred (Some (t, Fulfilled v))))
          = Responds (get_prop v ''status'') (get_prop v ''data'')"
    using settle_business_first [of "serverSentEvents m" t "API_TIMEOUT settings" "Fulfilled v"]
      assms(3)
    by (simp add: try_block_def nullthrows_value)
  with a show "dispatcher settings container cn controller m h s
                  = Done (respond [Status (get_prop v ''status''), Json (get_prop v ''data'')] s)"
    using dispatcher_prepared [OF assms(1,2), of settings m] write_result_responds [OF assms(4)]
    by simp
next
  show "calls (res (respond [Status (get_prop v ''status''), Json (get_prop v ''data'')] s))
           = calls (res s) @ [Status (get_prop v ''status''), Json (get_prop v ''data'')]"
    by (simp add: calls_respond)
  show "sent_status (calls (res (respond [Status (get_prop v ''status''),
                                           Json (get_prop v ''data'')] s)))
           = Some (get_prop v ''status'')"
    using sent_after_answer(1) [OF assms(4)] by (simp add: calls_respond)
  show "sent_body (calls (res (respond [Status (get_prop v ''status''),
                                         Json (get_prop v ''data'')] s)))
           = Some (JsonBody (get_prop v ''data''))"
    using sent_after_answer(2) [OF assms(4)] by (simp add: calls_respond)
next
  assume "1 \<le> API_TIMEOUT settings \<and> API_TIMEOUT settings \<le> 2147483647"
  then show "int (timer_delay (API_TIMEOUT settings)) = API_TIMEOUT settings"
    by (simp add: timer_delay_configured)
qed

theorem success_round_trip_witness:
  "dispatcher sample_settings singleton_container ''C'' 0
     (sample_meta JUndefined (value_method created)) sample_heap sample_st
     = Done (respond [Status (JNum 201), Json (JObj [(''id'', JStr ''abc'')])] sample_st)
   \<and> dispatcher sample_settings singleton_container ''C'' 0
     (sample_meta JUndefined (deferred_method (Some (10, Fulfilled created)))) sample_heap sample_st
     = Done (respond [Status (JNum 201), Json (JObj [(''id'', JStr ''abc'')])] sample_st)
   \<and> sent_status (calls (res (respond [Status (JNum 201), Json (JObj [(''id'', JStr ''abc'')])]
                                sample_st))) = Some (JNum 201)
   \<and> sent_body (calls (res (respond [Status (JNum 201), Json (JObj [(''id'', JStr ''abc'')])]
                              sample_st))) = Some (JsonBody (JObj [(''id'', JStr ''abc'')]))"
proof -
  have c: "\<not> nullish created" using created_fields by simp
  have t: "(10::nat) < timer_delay (API_TIMEOUT sample_settings)" by (simp add: sample_delay)
  have f: "get_prop created ''status'' = JNum 201"
    "get_prop created ''data'' = JObj [(''id'', JStr ''abc'')]"
    using created_fields by simp_all
  note R = success_round_trip [OF sample_prepared sample_body c sample_unsent, unfolded f]
  have rv: "mappedFunction (sample_meta JUndefined (value_method created)) this h' args
              = Returns (Value created)" for this h' args
    by (simp add: sample_meta_def value_method_def)
  have rd: "mappedFunction (sample_meta JUndefined (deferred_method p)) this h' args
              = Returns (Deferred p)
            \<and> \<not> truthy (serverSentEvents (sample_meta JUndefined (deferred_method p)))"
    for p this h' args
    by (simp add: sample_meta_def deferred_method_def)
  from R [of "sample_meta JUndefined (value_method created)" sample_settings] rv
  have A: "dispatcher sample_settings singleton_container ''C'' 0
     (sample_meta JUndefined (value_method created)) sample_heap sample_st
     = Done (respond [Status (JNum 201), Json (JObj [(''id'', JStr ''abc'')])] sample_st)
   \<and> sent_status (calls (res (respond [Status (JNum 201), Json (JObj [(''id'', JStr ''abc'')])]
                                sample_st))) = Some (JNum 201)
   \<and> sent_body (calls (res (respond [Status (JNum 201), Json (JObj [(''id'', JStr ''abc'')])]
                              sample_st))) = Some (JsonBody (JObj [(''id'', JStr ''abc'')]))"
    by blast
  from R [of "sample_meta JUndefined (deferred_method (Some (10, Fulfilled created)))"
      sample_settings] t rd
  have B: "dispatcher sample_settings singleton_container ''C'' 0
     (sample_meta JUndefined (deferred_method (Some (10, Fulfilled created)))) sample_heap sample_st
     = Done (respond [Status (JNum 201), Json (JObj [(''id'', JStr ''abc'')])] sample_st)"
    by blast
  from A B show ?thesis by blast
qed

lemma sse_stage_writes_head:
  "\<exists>s'. serverSentEventsMiddleware s = Next s' \<and> headers_sent (calls (res s'))"
  by (simp add: serverSentEventsMiddleware_def respond_def headers_sent_def)

lemma injectUser_keeps_response:
  "\<exists>s'. injectUserMiddleware s = Next s' \<and> res s' = res s"
  by (simp add: injectUserMiddleware_def Let_def)

lemma sse_route_head_written:
  assumes "truthy (serverSentEvents m)"
    and "\<And>a b. files a = Next b \<Longrightarrow> headers_sent (calls (res a)) \<Longrightarrow> headers_sent (calls (res b))"
  shows "(\<exists>s'. run_handlers (route_handlers caps m files) final s = final s'
               \<and> headers_sent (calls (res s')))
         \<or> (\<exists>s'. run_handlers (route_handlers caps m files) final s = Halted s')
         \<or> (\<exists>e s'. run_handlers (route_handlers caps m files) final s = Failed e s')"
proof (cases "maybe (oauth_authenticate caps) (\<not> truthy (anonymous m)) s")
  case (Next s1)
  from sse_stage_writes_head [of s1] obtain s2
    where s2: "serverSentEventsMiddleware s1 = Next s2" "headers_sent (calls (res s2))" by blast
  from injectUser_keeps_response [of s2] obtain s3
    where s3: "injectUserMiddleware s2 = Next s3" "res s3 = res s2" by blast
  have h3: "headers_sent (calls (res s3))" using s2(2) s3(2) by simp
  show ?thesis
  proof (cases "maybe files (truthy (allowedUploads m)) s3")
    case (Next s4)
    then have "headers_sent (calls (res s4))"
      using assms(2) [of s3 s4] h3 by (auto simp: maybe_def split: if_splits)
    then show ?thesis
      using \<open>maybe (oauth_authenticate caps) (\<not> truthy (anonymous m)) s = Next s1\<close>
        s2(1) s3(1) Next assms(1)
      by (auto simp: route_handlers_def maybe_def)
  next
    case (Ended s4)
    then show ?thesis
      using \<open>maybe (oauth_authenticate caps) (\<not> truthy (anonymous m)) s = Next s1\<close>
        s2(1) s3(1) assms(1)
      by (simp add: route_handlers_def maybe_def)
  next
    case (NextError e s4)
    then show ?thesis
      using \<open>maybe (oauth_authenticate caps) (\<not> truthy (anonymous m)) s = Next s1\<close>
        s2(1) s3(1) assms(1)
      by (simp add: route_handlers_def maybe_def)
  qed
next
  case (Ended s1)
  then show ?thesis by (simp add: route_handlers_def)
next
  case (NextError e s1)
  then show ?thesis by (simp add: route_handlers_def)
qed

lemma plain_route_head_unwritten:
  assumes "\<not> truthy (serverSentEvents m)" and "\<not> headers_sent (calls (res s))"
    and "\<And>a b. oauth_authenticate caps a = Next b \<Longrightarrow> \<not> headers_sent (calls (res a))
           \<Longrightarrow> \<not> headers_sent (calls (res b))"
    and "\<And>a b. files a = Next b \<Longrightarrow> \<not> headers_sent (calls (res a))
           \<Longrightarrow> \<not> headers_sent (calls (res b))"
  shows "(\<exists>s'. run_handlers (route_handlers caps m files) final s = final s'
               \<and> \<not> headers_sent (calls (res s')))
         \<or> (\<exists>s'. run_handlers (route_handlers caps m files) final s = Halted s')
         \<or> (\<exists>e s'. run_handlers (route_handlers caps m files) final s = Failed e s')"
proof (cases "maybe (oauth_authenticate caps) (\<not> truthy (anonymous m)) s")
  case (Next s1)
  then have h1: "\<not> headers_sent (calls (res s1))"
    using assms(2) assms(3) [of s s1] by (auto simp: maybe_def split: if_splits)
  from injectUser_keeps_response [of s1] obtain s3
    where s3: "injectUserMiddleware s1 = Next s3" "res s3 = res s1" by blast
  have h3: "\<not> headers_sent (calls (res s3))" using h1 s3(2) by simp
  show ?thesis
  proof (cases "maybe files (truthy (allowedUploads m)) s3")
    case (Next s4)
    then have "\<not> headers_sent (calls (res s4))"
      using assms(4) [of s3 s4] h3 by (auto simp: maybe_def split: if_splits)
    then show ?thesis
      using \<open>maybe (oauth_authenticate caps) (\<not> truthy (anonymous m)) s = Next s1\<close>
        s3(1) Next assms(1)
      by (auto simp: route_handlers_def maybe_def)
  next
    case (Ended s4)
    then show ?thesis
      using \<open>maybe (oauth_authenticate caps) (\<not> truthy (anonymous m)) s = Next s1\<close>
        s3(1) assms(1)
      by (simp add: route_handlers_def maybe_def)
  next
    case (NextError e s4)
    then show ?thesis
      using \<open>maybe (oauth_authenticate caps) (\<not> truthy (anonymous m)) s = Next s1\<close>
        s3(1) assms(1)
      by (simp add: route_handlers_def maybe_def)
  qed
next
  case (Ended s1)
  then show ?thesis by (simp add: route_handlers_def)
next
  case (NextError e s1)
  then show ?thesis by (simp add: route_handlers_def)
qed


lemma flaky_scan:
  "\<not> isl (RouteConfig sample_settings sample_caps flaky_container sample_controllers sample_heap)"
  by (simp add: RouteConfig_def flaky_container_def sample_heap_def sample_controllers_def
      bind_method_def sample_meta_def filesMiddleware_def nullthrows_def)



text \<open>
  Claim C3. On a route with server-sent events there is no timer; the promise is raced
  against \<^verbatim>\<open>null\<close> instead, which wins against every promise still pending, and
  \<^verbatim>\<open>nullthrows\<close> throws. Through the route's own chain the head is written by then,
  so the \<^verbatim>\<open>json\<close> of the \<^verbatim>\<open>catch\<close> block throws too and the exception leaves the
  handler; on a response with the head unwritten the handler would answer with the
  error of \<^verbatim>\<open>nullthrows\<close>. Either way the result that arrives a millisecond later is
  never written.
\<close>

theorem sse_result_lost:
  "run_handlers (route_handlers sample_caps sse_meta (multer_any sample_caps))
     (dispatcher sample_settings singleton_container ''C'' 0 sse_meta sample_heap) sample_st
     = Escaped headers_error
         (respond
            [WriteHead 200 [(''Cache-Control'', ''no-cache''), (''Connection'', ''keep-alive''),
                            (''Content-Type'', ''text/event-stream'')],
             Status (JNum 500)]
            (sample_st\<lparr>req := (req sample_st)\<lparr>noDelay := True\<rparr>\<rparr>))
   \<and> dispatcher sample_settings singleton_container ''C'' 0 sse_meta sample_heap sample_st
     = Done (respond
         [Status (JNum 500),
          Json (JObj [(''error'', JStr ''Got unexpected null or undefined''), (''ok'', JBool False)])]
         sample_st)"
proof -
  have m: "mappedFunction sse_meta this h' args = Returns (Deferred (Some (1, Fulfilled created)))"
    "truthy (serverSentEvents sse_meta)" "route sse_meta = ''/v1/provisioning/:coreID''"
    "truthy (anonymous sse_meta)" "\<not> truthy (allowedUploads sse_meta)"
    for this h' args
    by (simp_all add: sse_meta_def sample_meta_def)
  have lost: "try_block sample_settings (serverSentEvents sse_meta)
                (Returns (Deferred (Some (1, Fulfilled created))))
              = Fails (Error ''Got unexpected null or undefined'' None)"
    using settle_null_first [of "serverSentEvents sse_meta" "Some (1, Fulfilled created)"] m(2)
    by (simp add: try_block_def)
  have h500: "status (HttpError (Error ''Got unexpected null or undefined'' None)) = 500"
    "message (HttpError (Error ''Got unexpected null or undefined'' None))
       = ''Got unexpected null or undefined''"
    by (simp_all add: HttpError_def)
  let ?s1 = "respond
            [WriteHead 200 [(''Cache-Control'', ''no-cache''), (''Connection'', ''keep-alive''),
                            (''Content-Type'', ''text/event-stream'')]]
            (sample_st\<lparr>req := (req sample_st)\<lparr>noDelay := True\<rparr>\<rparr>)"
  have chain: "run_handlers (route_handlers sample_caps sse_meta (multer_any sample_caps)) final
                 sample_st = final ?s1" for final
    using m(2,4,5)
    by (simp add: route_handlers_def maybe_def serverSentEventsMiddleware_def
        injectUserMiddleware_def respond_def sample_st_def)
  have p1: "instance_for singleton_container ''C'' 0 sample_heap ?s1
     = Inr (1, sample_heap @ [\<lparr>proto = Some 0,
                 props = [(''request'', ReqObj (req ?s1)), (''response'', ResObj (res ?s1)),
                          (''user'', Val (user (req ?s1)))]\<rparr>])"
    by (simp add: instance_for_def singleton_container_def Object_create_def set_field_def
        sample_heap_def)
  have b1: "body (req ?s1) = Some [(''access_token'', JStr ''secret''), (''publicKey'', JStr ''key'')]"
    by (simp add: respond_def sample_st_def sample_request_def)
  have w1: "headers_sent (calls (res ?s1))" by (simp add: respond_def headers_sent_def)
  have "dispatcher sample_settings singleton_container ''C'' 0 sse_meta sample_heap ?s1
          = Escaped headers_error (respond [Status (JNum 500)] ?s1)"
    using dispatcher_prepared [OF p1 b1, of sample_settings sse_meta] m(1) lost
      write_result_fails_sent [OF w1, of "Error ''Got unexpected null or undefined'' None"]
    by (simp add: h500)
  then have A: "run_handlers (route_handlers sample_caps sse_meta (multer_any sample_caps))
     (dispatcher sample_settings singleton_container ''C'' 0 sse_meta sample_heap) sample_st
     = Escaped headers_error
         (respond
            [WriteHead 200 [(''Cache-Control'', ''no-cache''), (''Connection'', ''keep-alive''),
                            (''Content-Type'', ''text/event-stream'')],
             Status (JNum 500)]
            (sample_st\<lparr>req := (req sample_st)\<lparr>noDelay := True\<rparr>\<rparr>))"
    by (simp add: chain respond_def)
  have B: "dispatcher sample_settings singleton_container ''C'' 0 sse_meta sample_heap sample_st
     = Done (respond
         [Status (JNum 500),
          Json (JObj [(''error'', JStr ''Got unexpected null or undefined''), (''ok'', JBool False)])]
         sample_st)"
    using dispatcher_prepared [OF sample_prepared sample_body, of sample_settings sse_meta] m(1) lost
      write_result_fails [OF sample_unsent, of "Error ''Got unexpected null or undefined'' None"]
    by (simp add: h500)
  from A B show ?thesis by simp
qed

section \<open>The middleware chain\<close>

lemma maybe_False: "maybe mw False s = Next s"
  by (simp add: maybe_def)

lemma maybe_True: "maybe mw True s = mw s"
  by (simp add: maybe_def)

text \<open>
  Claim C7. The handlers of a bound route start with the authentication stage. With
  \<^verbatim>\<open>anonymous\<close> true the stage calls straight through: the chain runs as if it
  were not there, whatever the authentication middleware is. With \<^verbatim>\<open>anonymous\<close>
  false or absent every request goes through the authentication middleware first, and
  the later stages and the controller method run only if it calls \<^verbatim>\<open>next()\<close>.
\<close>

theorem auth_stage:
  "(\<forall>e. bind_method settings caps container cn controller m = Inr (Some e) \<longrightarrow>
      (\<exists>files. \<forall>h. entry_handler e h
         = run_handlers (route_handlers caps m files)
             (dispatcher settings container cn controller m h)))
   \<and> (anonymous m = JBool True \<longrightarrow>
        run_handlers (route_handlers caps m files) final s
          = run_handlers
              [maybe serverSentEventsMiddleware (truthy (serverSentEvents m)),
               injectUserMiddleware,
               maybe files (truthy (allowedUploads m))] final s)
   \<and> (anonymous m = JBool False \<or> anonymous m = JUndefined \<longrightarrow>
        run_handlers (route_handlers caps m files) final s
          = (case oauth_authenticate caps s of
               Ended s' \<Rightarrow> Halted s'
             | NextError err s' \<Rightarrow> Failed err s'
             | Next s' \<Rightarrow>
                 run_handlers
                   [maybe serverSentEventsMiddleware (truthy (serverSentEvents m)),
                    injectUserMiddleware,
                    maybe files (truthy (allowedUploads m))] final s'))"
proof (intro conjI impI allI)
  fix e
  assume "bind_method settings caps container cn controller m = Inr (Some e)"
  then show "\<exists>files. \<forall>h. entry_handler e h
         = run_handlers (route_handlers caps m files)
             (dispatcher settings container cn controller m h)"
    by (auto simp: bind_method_def split: if_splits sum.splits jsval.splits)
next
  assume "anonymous m = JBool True"
  then show "run_handlers (route_handlers caps m files) final s
          = run_handlers
              [maybe serverSentEventsMiddleware (truthy (serverSentEvents m)),
               injectUserMiddleware,
               maybe files (truthy (allowedUploads m))] final s"
    by (simp add: route_handlers_def maybe_False)
next
  assume "anonymous m = JBool False \<or> anonymous m = JUndefined"
  then have "\<not> truthy (anonymous m)" by auto
  then show "run_handlers (route_handlers caps m files) final s
          = (case oauth_authenticate caps s of
               Ended s' \<Rightarrow> Halted s'
             | NextError err s' \<Rightarrow> Failed err s'
             | Next s' \<Rightarrow>
                 run_handlers
                   [maybe serverSentEventsMiddleware (truthy (serverSentEvents m)),
                    injectUserMiddleware,
                    maybe files (truthy (allowedUploads m))] final s')"
    by (simp add: route_handlers_def maybe_True split: flow.splits)
qed

theorem auth_stage_witness:
  "(\<exists>e. bind_method sample_settings sample_caps singleton_container ''C'' 0
            (sample_meta JUndefined echo_method) = Inr (Some e)
        \<and> entry_handler e sample_heap sample_st = Halted (respond [Status (JNum 401)] sample_st))
   \<and> run_handlers
       (route_handlers sample_caps ((sample_meta JUndefined echo_method)\<lparr>anonymous := JBool True\<rparr>)
          (multer_any sample_caps))
       Passed sample_st
     = Passed sample_st"
proof -
  let ?m = "sample_meta JUndefined echo_method"
  let ?a = "?m\<lparr>anonymous := JBool True\<rparr>"
  have 1: "anonymous ?m = JBool False \<or> anonymous ?m = JUndefined" by (simp add: sample_meta_def)
  have 2: "anonymous ?a = JBool True" by simp
  obtain e where b: "bind_method sample_settings sample_caps singleton_container ''C'' 0 ?m
                       = Inr (Some e)"
    by (simp add: bind_method_def sample_meta_def filesMiddleware_def nullthrows_def)
  note t = auth_stage [where m = ?m and caps = sample_caps and settings = sample_settings
      and container = singleton_container and cn = "''C''" and controller = 0 and s = sample_st]
  from t b obtain files where
    eh: "entry_handler e sample_heap
           = run_handlers (route_handlers sample_caps ?m files)
               (dispatcher sample_settings singleton_container ''C'' 0 ?m sample_heap)"
    by blast
  from t [where files = files
      and final = "dispatcher sample_settings singleton_container ''C'' 0 ?m sample_heap"] 1
  have "run_handlers (route_handlers sample_caps ?m files)
     (dispatcher sample_settings singleton_container ''C'' 0 ?m sample_heap) sample_st
     = Halted (respond [Status (JNum 401)] sample_st)"
    by (simp add: sample_caps_def)
  with eh b have A: "\<exists>e. bind_method sample_settings sample_caps singleton_container ''C'' 0 ?m
                       = Inr (Some e)
        \<and> entry_handler e sample_heap sample_st = Halted (respond [Status (JNum 401)] sample_st)"
    by simp
  from auth_stage [where m = ?a and caps = sample_caps and files = "multer_any sample_caps"
      and s = sample_st and final = Passed] 2
  have B: "run_handlers (route_handlers sample_caps ?a (multer_any sample_caps)) Passed sample_st
     = Passed sample_st"
    by (simp add: sample_caps_def sample_meta_def maybe_def injectUserMiddleware_def sample_st_def)
  from A B show ?thesis by blast
qed


section \<open>Binding at startup\<close>

lemma bind_methods_throws:
  assumes "m \<in> set ms" and "truthy (httpVerb m)" and "allowedUploads m = JNull"
  shows "\<exists>e. bind_methods settings caps container cn controller ms = Inl e"
  using assms(1)
proof (induction ms)
  case Nil
  then show ?case by simp
next
  case (Cons a ms)
  show ?case
  proof (cases "a = m")
    case True
    then have "bind_method settings caps container cn controller a
                 = Inl (Error ''Got unexpected null or undefined'' None)"
      using assms(2,3) by (simp add: bind_method_def filesMiddleware_def nullthrows_def)
    then show ?thesis by simp
  next
    case False
    with Cons obtain e where "bind_methods settings caps container cn controller ms = Inl e"
      by auto
    then show ?thesis by (simp split: sum.splits)
  qed
qed

lemma bind_controllers_throws:
  assumes "(cn, ms) \<in> set controllers" and "m \<in> set ms"
    and "truthy (httpVerb m)" and "allowedUploads m = JNull"
  shows "\<exists>e. bind_controllers settings caps container controllers h = Inl e"
  using assms(1)
proof (induction controllers arbitrary: h)
  case Nil
  then show ?case by simp
next
  case (Cons c cs)
  obtain cn' ms' where c: "c = (cn', ms')" by (cases c)
  show ?case
  proof (cases "container cn' h")
    case (Inl e)
    then show ?thesis using c by simp
  next
    case (Inr r)
    obtain controller h1 where r: "r = (controller, h1)" by (cases r)
    show ?thesis
    proof (cases "c = (cn, ms)")
      case True
      then have "\<exists>e. bind_methods settings caps container cn' controller ms' = Inl e"
        using c bind_methods_throws [OF assms(2-4)] by simp
      then show ?thesis using c Inr r by auto
    next
      case False
      with Cons.prems have "(cn, ms) \<in> set cs" by simp
      from Cons.IH [OF this, of h1] obtain e
        where "bind_controllers settings caps container cs h1 = Inl e" by blast
      then show ?thesis using c Inr r by (simp split: sum.splits)
    qed
  qed
qed

text \<open>
  Claim C10. For a method with an \<^verbatim>\<open>httpVerb\<close> the upload factory is called while
  the route is being registered, whether or not the upload stage will be active. So
  \<^verbatim>\<open>allowedUploads: null\<close>, for which the stage is inactive, makes the binding and
  with it the whole route configuration throw at startup through \<^verbatim>\<open>nullthrows\<close>;
  \<^verbatim>\<open>undefined\<close> (the factory returns the generic parser, never run) and an array
  bind normally, and a method without a verb is skipped before the factory is called.
\<close>

theorem eager_upload_factory:
  "(truthy (httpVerb m) \<and> allowedUploads m = JNull \<longrightarrow>
      \<not> truthy (allowedUploads m)
      \<and> bind_method settings caps container cn controller m
          = Inl (Error ''Got unexpected null or undefined'' None)
      \<and> (\<forall>controllers ms h. (cn, ms) \<in> set controllers \<and> m \<in> set ms \<longrightarrow>
            (\<exists>e. RouteConfig settings caps container controllers h = Inl e)))
   \<and> (httpVerb m = JStr verb \<and> verb \<noteq> [] \<and> allowedUploads m = JUndefined \<longrightarrow>
      \<not> truthy (allowedUploads m)
      \<and> filesMiddleware caps (allowedUploads m) = Inr (multer_any caps)
      \<and> (\<exists>e. bind_method settings caps container cn controller m = Inr (Some e)))
   \<and> (httpVerb m = JStr verb \<and> verb \<noteq> [] \<and> allowedUploads m = JArr specs \<longrightarrow>
      (\<exists>e. bind_method settings caps container cn controller m = Inr (Some e)))
   \<and> (\<not> truthy (httpVerb m) \<longrightarrow>
      bind_method settings caps container cn controller m = Inr None)"
proof (intro conjI impI allI)
  assume a: "truthy (httpVerb m) \<and> allowedUploads m = JNull"
  then show "\<not> truthy (allowedUploads m)" by simp
  from a show "bind_method settings caps container cn controller m
          = Inl (Error ''Got unexpected null or undefined'' None)"
    by (simp add: bind_method_def filesMiddleware_def nullthrows_def)
  fix controllers ms h
  assume mem: "(cn, ms) \<in> set controllers \<and> m \<in> set ms"
  show "\<exists>e. RouteConfig settings caps container controllers h = Inl e"
  proof (cases "container ''UserRepository'' h")
    case (Inl e)
    then show ?thesis by (simp add: RouteConfig_def)
  next
    case (Inr r)
    obtain u h0 where r: "r = (u, h0)" by (cases r)
    from bind_controllers_throws [of cn ms controllers m settings caps container h0] a mem
    obtain e where "bind_controllers settings caps container controllers h0 = Inl e" by blast
    then show ?thesis using Inr r by (simp add: RouteConfig_def)
  qed
next
  assume a: "httpVerb m = JStr verb \<and> verb \<noteq> [] \<and> allowedUploads m = JUndefined"
  then show "\<not> truthy (allowedUploads m)" by simp
  from a show "filesMiddleware caps (allowedUploads m) = Inr (multer_any caps)"
    by (simp add: filesMiddleware_def nullthrows_def)
  from a show "\<exists>e. bind_method settings caps container cn controller m = Inr (Some e)"
    by (simp add: bind_method_def filesMiddleware_def nullthrows_def)
next
  assume a: "httpVerb m = JStr verb \<and> verb \<noteq> [] \<and> allowedUploads m = JArr specs"
  then show "\<exists>e. bind_method settings caps container cn controller m = Inr (Some e)"
    by (simp add: bind_method_def filesMiddleware_def nullthrows_def)
next
  assume "\<not> truthy (httpVerb m)"
  then show "bind_method settings caps container cn controller m = Inr None"
    by (simp add: bind_method_def)
qed

theorem eager_upload_factory_witness:
  "bind_method sample_settings sample_caps singleton_container ''C'' 0
     ((sample_meta JUndefined echo_method)\<lparr>allowedUploads := JNull\<rparr>)
     = Inl (Error ''Got unexpected null or undefined'' None)
   \<and> (\<exists>e. RouteConfig sample_settings sample_caps singleton_container
         [(''C'', [(sample_meta JUndefined echo_method)\<lparr>allowedUploads := JNull\<rparr>])] sample_heap
         = Inl e)
   \<and> (\<exists>e. bind_method sample_settings sample_caps singleton_container ''C'' 0
         (sample_meta JUndefined echo_method) = Inr (Some e))
   \<and> (\<exists>e. bind_method sample_settings sample_caps singleton_container ''C'' 0
         ((sample_meta JUndefined echo_method)
            \<lparr>allowedUploads := JArr [JObj [(''name'', JStr ''file''), (''maxCount'', JNum 1)]]\<rparr>)
         = Inr (Some e))
   \<and> bind_method sample_settings sample_caps singleton_container ''C'' 0
       ((sample_meta JUndefined echo_method)\<lparr>httpVerb := JUndefined, allowedUploads := JNull\<rparr>)
       = Inr None"
proof -
  let ?bad = "(sample_meta JUndefined echo_method)\<lparr>allowedUploads := JNull\<rparr>"
  let ?spec = "[JObj [(''name'', JStr ''file''), (''maxCount'', JNum 1)]]"
  let ?up = "(sample_meta JUndefined echo_method)\<lparr>allowedUploads := JArr ?spec\<rparr>"
  let ?helper = "(sample_meta JUndefined echo_method)\<lparr>httpVerb := JUndefined, allowedUploads := JNull\<rparr>"
  have b: "truthy (httpVerb ?bad) \<and> allowedUploads ?bad = JNull" by (simp add: sample_meta_def)
  have g: "httpVerb (sample_meta JUndefined echo_method) = JStr ''post'' \<and> ''post'' \<noteq> []
           \<and> allowedUploads (sample_meta JUndefined echo_method) = JUndefined"
    by (simp add: sample_meta_def)
  have u: "httpVerb ?up = JStr ''post'' \<and> ''post'' \<noteq> [] \<and> allowedUploads ?up = JArr ?spec"
    by (simp add: sample_meta_def)
  have n: "\<not> truthy (httpVerb ?helper)" by (simp add: sample_meta_def)
  have mem: "(''C'', [?bad]) \<in> set [(''C'', [?bad])] \<and> ?bad \<in> set [?bad]" by simp
  from eager_upload_factory [where m = ?bad and settings = sample_settings and caps = sample_caps
      and container = singleton_container and cn = "''C''" and controller = 0] b mem
  have A: "bind_method sample_settings sample_caps singleton_container ''C'' 0 ?bad
     = Inl (Error ''Got unexpected null or undefined'' None)
     \<and> (\<exists>e. RouteConfig sample_settings sample_caps singleton_container
         [(''C'', [?bad])] sample_heap = Inl e)"
    by blast
  from eager_upload_factory [where m = "sample_meta JUndefined echo_method" and verb = "''post''"
      and settings = sample_settings and caps = sample_caps
      and container = singleton_container and cn = "''C''" and controller = 0] g
  have B: "\<exists>e. bind_method sample_settings sample_caps singleton_container ''C'' 0
         (sample_meta JUndefined echo_method) = Inr (Some e)"
    by blast
  from eager_upload_factory [where m = ?up and verb = "''post''" and specs = ?spec
      and settings = sample_settings and caps = sample_caps
      and container = singleton_container and cn = "''C''" and controller = 0] u
  have U: "\<exists>e. bind_method sample_settings sample_caps singleton_container ''C'' 0 ?up
             = Inr (Some e)"
    by blast
  from eager_upload_factory [where m = ?helper and settings = sample_settings and caps = sample_caps
      and container = singleton_container and cn = "''C''" and controller = 0] n
  have C: "bind_method sample_settings sample_caps singleton_container ''C'' 0 ?helper = Inr None"
    by blast
  from A B U C show ?thesis by blast
qed

section \<open>Unmatched requests\<close>

lemma handle_unmatched:
  assumes "\<forall>e \<in> set es. matches pm e (req s) = None"
  shows "handle pm (es @ rest) h s = handle pm rest h s"
  using assms by (induction es) auto

lemma matches_catch_all:
  "matches pm (Entry ''all'' ''*'' f) r = Some [(''0'', path r)]"
  by (simp add: matches_def)

lemma RouteConfig_table:
  assumes "RouteConfig settings caps container controllers h0 = Inr (table, h1)"
  shows "\<exists>es. table = es @ [Entry ''all'' ''*'' not_found]"
proof -
  from assms obtain es where
    "table = Entry ''post'' (LOGIN_ROUTE settings) (\<lambda>h. run_handlers [oauth_token caps] Passed)
             # es @ [Entry ''all'' ''*'' not_found]"
    by (auto simp: RouteConfig_def split: sum.splits)
  then have "table = (Entry ''post'' (LOGIN_ROUTE settings) (\<lambda>h. run_handlers [oauth_token caps] Passed)
             # es) @ [Entry ''all'' ''*'' not_found]" by simp
  then show ?thesis by blast
qed

text \<open>
  Claim C8, amended. A request that matches neither the login route nor any bound
  route reaches the catch-all, whose only act is \<^verbatim>\<open>sendStatus(404)\<close>: the status is
  404 and the body is the reason phrase the framework sends for it.
\<close>

theorem unmatched_request:
  assumes "RouteConfig settings caps container controllers h0 = Inr (table, h1)"
    and "\<forall>e \<in> set (butlast table). matches pm e (req s) = None"
  shows "handle pm table h s
           = Done (respond [SendStatus 404] (s\<lparr>req := (req s)\<lparr>params := [(''0'', path (req s))]\<rparr>\<rparr>))
         \<and> (calls (res s) = [] \<longrightarrow>
              sent_status (calls (res (outcome_state (handle pm table h s)))) = Some (JNum 404)
              \<and> sent_body (calls (res (outcome_state (handle pm table h s))))
                  = Some (ReasonPhrase 404))"
proof -
  from RouteConfig_table [OF assms(1)] obtain es
    where t: "table = es @ [Entry ''all'' ''*'' not_found]" by blast
  with assms(2) have "\<forall>e \<in> set es. matches pm e (req s) = None" by simp
  from handle_unmatched [OF this, of "[Entry ''all'' ''*'' not_found]" h] t
  have "handle pm table h s = handle pm [Entry ''all'' ''*'' not_found] h s" by simp
  then have 1: "handle pm table h s
           = Done (respond [SendStatus 404] (s\<lparr>req := (req s)\<lparr>params := [(''0'', path (req s))]\<rparr>\<rparr>))"
    by (simp add: matches_catch_all not_found_def)
  then show ?thesis
    by (simp add: respond_def sent_status_def sent_body_def List.map_filter_simps)
qed

lemma sample_table_eq:
  "RouteConfig sample_settings sample_caps singleton_container sample_controllers sample_heap
     = Inr (sample_table, sample_heap)"
  by (simp add: sample_table_def RouteConfig_def sample_controllers_def singleton_container_def
      bind_method_def sample_meta_def filesMiddleware_def nullthrows_def)

lemma stray_unmatched:
  "\<forall>e \<in> set (butlast sample_table). matches literal_matcher e (req stray_st) = None"
  by (simp add: sample_table_def RouteConfig_def sample_controllers_def singleton_container_def
      bind_method_def sample_meta_def filesMiddleware_def nullthrows_def matches_def
      literal_matcher_def stray_st_def sample_settings_def)

theorem unmatched_request_witness:
  "handle literal_matcher sample_table sample_heap stray_st
     = Done (respond [SendStatus 404] (stray_st\<lparr>req := (req stray_st)\<lparr>params := [(''0'', ''/nowhere'')]\<rparr>\<rparr>))
   \<and> sent_status (calls (res (outcome_state (handle literal_matcher sample_table sample_heap stray_st))))
       = Some (JNum 404)"
proof -
  have e: "calls (res stray_st) = []" by (simp add: stray_st_def)
  have p: "path (req stray_st) = ''/nowhere''" by (simp add: stray_st_def)
  note u = unmatched_request [OF sample_table_eq stray_unmatched, of sample_heap, unfolded p]
  from u e show ?thesis by blast
qed

text \<open>
  Claim C8 as stated fails: the response to an unmatched request has a body, the
  reason phrase of status 404.
\<close>

theorem not_found_body_not_empty:
  "sent_body (calls (res (outcome_state (handle literal_matcher sample_table sample_heap stray_st))))
     = Some (ReasonPhrase 404)"
  by (simp add: sample_table_def RouteConfig_def sample_controllers_def singleton_container_def
      bind_method_def sample_meta_def filesMiddleware_def nullthrows_def matches_def
      literal_matcher_def stray_st_def sample_settings_def not_found_def respond_def
      sent_body_def List.map_filter_simps)

end
